theory Spec2Isabelle
  imports Complex_Main
begin

section \<open>The cross validator of GitHub and NEAR metrics\<close>

text \<open>
  A shallow embedding of \<^verbatim>\<open>src/validators/cross-validator.ts\<close>: the class
  \<^verbatim>\<open>CrossValidator\<close>, whose instance holds the resolved thresholds only, and its
  method \<^verbatim>\<open>validate\<close> with the private helpers it calls. A method takes the
  instance (\<open>this\<close>, the thresholds) as its first argument. The helpers that push onto
  the \<^verbatim>\<open>errors\<close> or \<^verbatim>\<open>warnings\<close> array take the array and return the
  updated array. The two readings of \<^verbatim>\<open>Date.now()\<close> are arguments of the model.
  A second form of the method works on a heap of objects, with the records and the
  arrays behind addresses, and says which object each helper writes.
\<close>

subsection \<open>Numbers\<close>

text \<open>
  A \<^verbatim>\<open>number\<close> is a double: \<^verbatim>\<open>NaN\<close>, one of the two infinities, or a finite
  value, kept as the real number it denotes. The sign of a zero, which no operation of
  this file can observe, is not kept. The arithmetic on counters (\<^verbatim>\<open>+\<close>,
  \<^verbatim>\<open>/\<close>) and on the user counts (\<^verbatim>\<open>*\<close>) rounds its exact result to the nearest
  double, ties to the even significand, and overflows to an infinity.

  Timestamps, thresholds and set sizes are finite numbers, kept as reals. Timestamps are
  whole milliseconds and set sizes are whole, all far below \<open>2^53\<close>: their differences,
  maxima and comparisons are exact in doubles and are written as the exact operations.

  The activity counters are where a value can be missing or falsy: reading a missing
  counter gives \<^verbatim>\<open>undefined\<close>, which \<^verbatim>\<open>+\<close> converts to \<^verbatim>\<open>NaN\<close>, and the falsy
  values of type \<^verbatim>\<open>number\<close> are \<^verbatim>\<open>0\<close> and \<^verbatim>\<open>NaN\<close>.
\<close>

datatype number = NaN | PInf | NInf | Fin real

text \<open>The nearest integer, a tie going to the even one.\<close>

definition round_half_even :: "real \<Rightarrow> int" where
  "round_half_even r =
     (let f = \<lfloor>r\<rfloor>
      in if r - of_int f < 1 / 2 then f
         else if 1 / 2 < r - of_int f then f + 1
         else if even f then f else f + 1)"

text \<open>
  The binary exponent of a positive \<open>x\<close>: the \<open>E\<close> with \<open>2^E \<le> x < 2^(E+1)\<close>, found by
  bisection of the \<open>2^n\<close> exponents from \<open>lo\<close> upwards.
\<close>

fun exponent_search :: "nat \<Rightarrow> int \<Rightarrow> real \<Rightarrow> int" where
  "exponent_search 0 lo x = lo"
| "exponent_search (Suc n) lo x =
     (if 2 powi (lo + 2 ^ n) \<le> x then exponent_search n (lo + 2 ^ n) x
      else exponent_search n lo x)"

text \<open>
  Rounding to binary64: 53 bits of significand, so a normal number of exponent \<open>E\<close> is
  rounded to a multiple of \<open>2^(E-52)\<close>; below \<open>2^(-1022)\<close> the multiples of
  \<open>2^(-1074)\<close> (the subnormal numbers); a result of magnitude \<open>2^1024\<close> or more is
  an infinity.
\<close>

definition round_double :: "real \<Rightarrow> number" where
  "round_double x =
     (if 2 ^ 1024 \<le> \<bar>x\<bar> then (if 0 < x then PInf else NInf)
      else
        let e = (if \<bar>x\<bar> < 2 powi (- 1022) then - 1074
                 else exponent_search 11 (- 1022) \<bar>x\<bar> - 52);
            y = of_int (round_half_even (x / 2 powi e)) * 2 powi e
        in if 2 ^ 1024 \<le> \<bar>y\<bar> then (if 0 < x then PInf else NInf) else Fin y)"

text \<open>\<^verbatim>\<open>x + y\<close>.\<close>

fun js_add :: "number \<Rightarrow> number \<Rightarrow> number" where
  "js_add NaN _ = NaN"
| "js_add _ NaN = NaN"
| "js_add PInf NInf = NaN"
| "js_add NInf PInf = NaN"
| "js_add PInf _ = PInf"
| "js_add _ PInf = PInf"
| "js_add NInf _ = NInf"
| "js_add _ NInf = NInf"
| "js_add (Fin a) (Fin b) = round_double (a + b)"

text \<open>\<^verbatim>\<open>x * y\<close>.\<close>

fun js_mul :: "number \<Rightarrow> number \<Rightarrow> number" where
  "js_mul NaN _ = NaN"
| "js_mul _ NaN = NaN"
| "js_mul (Fin a) (Fin b) = round_double (a * b)"
| "js_mul (Fin a) PInf = (if a = 0 then NaN else if 0 < a then PInf else NInf)"
| "js_mul (Fin a) NInf = (if a = 0 then NaN else if 0 < a then NInf else PInf)"
| "js_mul PInf (Fin b) = (if b = 0 then NaN else if 0 < b then PInf else NInf)"
| "js_mul NInf (Fin b) = (if b = 0 then NaN else if 0 < b then NInf else PInf)"
| "js_mul PInf PInf = PInf"
| "js_mul PInf NInf = NInf"
| "js_mul NInf PInf = NInf"
| "js_mul NInf NInf = PInf"

text \<open>
  \<^verbatim>\<open>x / y\<close>. A zero divisor is taken as the positive zero. The code of this file never
  divides by a zero: its divisors are the literals 3 and 2, and \<open>maxActivity\<close> after
  the test \<^verbatim>\<open>maxActivity === 0\<close> has failed.
\<close>

fun js_div :: "number \<Rightarrow> number \<Rightarrow> number" where
  "js_div NaN _ = NaN"
| "js_div _ NaN = NaN"
| "js_div (Fin a) (Fin b) =
     (if b = 0 then (if a = 0 then NaN else if 0 < a then PInf else NInf)
      else round_double (a / b))"
| "js_div (Fin a) PInf = Fin 0"
| "js_div (Fin a) NInf = Fin 0"
| "js_div PInf (Fin b) = (if 0 \<le> b then PInf else NInf)"
| "js_div NInf (Fin b) = (if 0 \<le> b then NInf else PInf)"
| "js_div PInf PInf = NaN"
| "js_div PInf NInf = NaN"
| "js_div NInf PInf = NaN"
| "js_div NInf NInf = NaN"

text \<open>\<^verbatim>\<open>x < y\<close> and \<^verbatim>\<open>x === y\<close> on numbers: false as soon as one side is \<^verbatim>\<open>NaN\<close>.\<close>

fun js_lt :: "number \<Rightarrow> number \<Rightarrow> bool" where
  "js_lt NaN _ = False"
| "js_lt _ NaN = False"
| "js_lt PInf _ = False"
| "js_lt _ NInf = False"
| "js_lt NInf _ = True"
| "js_lt _ PInf = True"
| "js_lt (Fin a) (Fin b) = (a < b)"

fun strict_eq :: "number \<Rightarrow> number \<Rightarrow> bool" where
  "strict_eq NaN _ = False"
| "strict_eq _ NaN = False"
| "strict_eq a b = (a = b)"

text \<open>\<^verbatim>\<open>Math.max(x, y)\<close> and \<^verbatim>\<open>Math.min(x, y)\<close>: \<^verbatim>\<open>NaN\<close> when an argument is.\<close>

fun Math_max :: "number \<Rightarrow> number \<Rightarrow> number" where
  "Math_max NaN _ = NaN"
| "Math_max _ NaN = NaN"
| "Math_max a b = (if js_lt a b then b else a)"

fun Math_min :: "number \<Rightarrow> number \<Rightarrow> number" where
  "Math_min NaN _ = NaN"
| "Math_min _ NaN = NaN"
| "Math_min a b = (if js_lt b a then b else a)"

subsection \<open>The data\<close>

text \<open>
  Modelled from the spec: the declarations of \<^verbatim>\<open>GitHubMetrics\<close> and
  \<^verbatim>\<open>NEARMetrics\<close> (\<^verbatim>\<open>../types\<close>) are not among the sources. The records hold the
  fields the validator reads, a field named by its path:
  \<^verbatim>\<open>github.commits.count\<close> is \<open>commits_count github\<close>, and
  \<^verbatim>\<open>x.metadata.collectionTimestamp\<close> is \<open>metadata_collectionTimestamp x\<close> for both
  records. User identifiers are strings.
\<close>

record Metrics =
  metadata_collectionTimestamp :: real

record GitHubMetrics = Metrics +
  commits_count :: number
  commits_authors :: "string list"
  pullRequests_merged :: number
  pullRequests_authors :: "string list"
  issues_closed :: number
  issues_participants :: "string list"

record NEARMetrics = Metrics +
  transactions_count :: number
  transactions_uniqueUsers :: "string list"
  contract_calls :: number
  contract_uniqueCallers :: "string list"

text \<open>
  Modelled from the spec: the declarations of \<^verbatim>\<open>ValidationError\<close>,
  \<^verbatim>\<open>ValidationWarning\<close> and \<^verbatim>\<open>ValidationResult\<close> (\<^verbatim>\<open>../types\<close>) are not among
  the sources either. An error and a warning have the same shape (the source pushes the
  result of \<^verbatim>\<open>createValidationError\<close> onto both arrays): a code, a message, and a
  context, an object literal kept as the list of its keys and values in the order
  written. Every context value of this file is a number.
\<close>

record ValidationError =
  code :: string
  message :: string
  err_context :: "(string \<times> number) list"

type_synonym ValidationWarning = ValidationError

record ValidationResult =
  isValid :: bool
  errors :: "ValidationError list"
  warnings :: "ValidationWarning list"
  timestamp :: real
  metadata :: "(string \<times> string) list"

record ValidationThresholds =
  maxTimeDrift :: real
  minActivityCorrelation :: real
  maxDataAge :: real
  maxUserDiffRatio :: real

text \<open>\<^verbatim>\<open>Partial<ValidationThresholds>\<close>: every key may be absent.\<close>

record PartialValidationThresholds =
  maxTimeDrift_opt :: "real option"
  minActivityCorrelation_opt :: "real option"
  maxDataAge_opt :: "real option"
  maxUserDiffRatio_opt :: "real option"

text \<open>
  The literal \<^verbatim>\<open>0.3\<close> denotes the double nearest to three tenths,
  \<open>5404319552844595 / 2^54\<close> (lemma \<open>literal_three_tenths\<close>); the other three
  literals denote their exact values.
\<close>

definition DEFAULT_THRESHOLDS :: ValidationThresholds where
  "DEFAULT_THRESHOLDS =
     \<lparr>maxTimeDrift = 6 * 60 * 60 * 1000,
      minActivityCorrelation = 5404319552844595 / 2 ^ 54,
      maxDataAge = 24 * 60 * 60 * 1000,
      maxUserDiffRatio = 0.5\<rparr>"

text \<open>
  Modelled from the spec: the enumeration \<^verbatim>\<open>ErrorCode\<close> (\<^verbatim>\<open>../utils/errors\<close>)
  is not among the sources; the code vocabulary of the spec gives the value of its
  member \<^verbatim>\<open>USER_COUNT_DISCREPANCY\<close>.
\<close>

definition ErrorCode_USER_COUNT_DISCREPANCY :: string where
  "ErrorCode_USER_COUNT_DISCREPANCY = ''USER_COUNT_DISCREPANCY''"

subsection \<open>The class\<close>

text \<open>
  The constructor: \<^verbatim>\<open>{...DEFAULT_THRESHOLDS, ...thresholds}\<close>, a key of the
  argument replacing the default; \<open>None\<close> is a key that the argument does not have.
\<close>

definition CrossValidator :: "PartialValidationThresholds \<Rightarrow> ValidationThresholds" where
  "CrossValidator thresholds =
     \<lparr>maxTimeDrift =
        (case maxTimeDrift_opt thresholds of
           None \<Rightarrow> maxTimeDrift DEFAULT_THRESHOLDS | Some v \<Rightarrow> v),
      minActivityCorrelation =
        (case minActivityCorrelation_opt thresholds of
           None \<Rightarrow> minActivityCorrelation DEFAULT_THRESHOLDS | Some v \<Rightarrow> v),
      maxDataAge =
        (case maxDataAge_opt thresholds of
           None \<Rightarrow> maxDataAge DEFAULT_THRESHOLDS | Some v \<Rightarrow> v),
      maxUserDiffRatio =
        (case maxUserDiffRatio_opt thresholds of
           None \<Rightarrow> maxUserDiffRatio DEFAULT_THRESHOLDS | Some v \<Rightarrow> v)\<rparr>"

text \<open>\<^verbatim>\<open>array.push(x)\<close>, returning the array.\<close>

definition push :: "'a list \<Rightarrow> 'a \<Rightarrow> 'a list" where
  "push xs x = xs @ [x]"

definition createValidationError ::
  "string \<Rightarrow> string \<Rightarrow> (string \<times> number) list \<Rightarrow> ValidationError" where
  "createValidationError c m ctx = \<lparr>code = c, message = m, err_context = ctx\<rparr>"

definition calculateActivityCorrelation :: "GitHubMetrics \<Rightarrow> NEARMetrics \<Rightarrow> number" where
  "calculateActivityCorrelation github near =
     (let githubActivity =
            js_div
              (js_add (js_add (commits_count github) (pullRequests_merged github))
                 (issues_closed github))
              (Fin 3);
          nearActivity =
            js_div (js_add (transactions_count near) (contract_calls near)) (Fin 2);
          maxActivity = Math_max githubActivity nearActivity
      in if strict_eq maxActivity (Fin 0) then Fin 1
         else js_div (Math_min githubActivity nearActivity) maxActivity)"

definition hasTimestampDrift ::
  "ValidationThresholds \<Rightarrow> GitHubMetrics \<Rightarrow> NEARMetrics \<Rightarrow> bool" where
  "hasTimestampDrift this github near =
     (let githubTimestamp = metadata_collectionTimestamp github;
          nearTimestamp = metadata_collectionTimestamp near;
          timeDiff = \<bar>githubTimestamp - nearTimestamp\<bar>
      in timeDiff > maxTimeDrift this)"

definition calculateTimeDrift :: "GitHubMetrics \<Rightarrow> NEARMetrics \<Rightarrow> real" where
  "calculateTimeDrift github near =
     \<bar>metadata_collectionTimestamp github - metadata_collectionTimestamp near\<bar>"

text \<open>\<open>now\<close> is the reading of \<^verbatim>\<open>Date.now()\<close> at the head of the method.\<close>

definition validateDataFreshness ::
  "ValidationThresholds \<Rightarrow> GitHubMetrics \<Rightarrow> NEARMetrics \<Rightarrow> ValidationError list \<Rightarrow> real
     \<Rightarrow> ValidationError list" where
  "validateDataFreshness this github near errs now =
     (let errs1 =
            (if now - metadata_collectionTimestamp github > maxDataAge this
             then push errs
                    (createValidationError ''STALE_DATA'' ''GitHub data is too old''
                       [(''timestamp'', Fin (metadata_collectionTimestamp github)),
                        (''maxAge'', Fin (maxDataAge this))])
             else errs)
      in if now - metadata_collectionTimestamp near > maxDataAge this
         then push errs1
                (createValidationError ''STALE_DATA'' ''NEAR data is too old''
                   [(''timestamp'', Fin (metadata_collectionTimestamp near)),
                    (''maxAge'', Fin (maxDataAge this))])
         else errs1)"

definition validateActivityCorrelation ::
  "ValidationThresholds \<Rightarrow> GitHubMetrics \<Rightarrow> NEARMetrics \<Rightarrow> ValidationWarning list
     \<Rightarrow> ValidationWarning list" where
  "validateActivityCorrelation this github near warns =
     (let correlation = calculateActivityCorrelation github near
      in if js_lt correlation (Fin (minActivityCorrelation this))
         then push warns
                (createValidationError ''LOW_ACTIVITY_CORRELATION''
                   ''Low correlation between GitHub and NEAR activity''
                   [(''correlation'', correlation),
                    (''threshold'', Fin (minActivityCorrelation this))])
         else warns)"

text \<open>
  \<^verbatim>\<open>new Set([...a, ...b, ...c])\<close> is the set of the elements of the three arrays,
  and \<^verbatim>\<open>.size\<close> its cardinality. The difference of the sizes and their maximum are
  exact; the product with the ratio is rounded.
\<close>

definition validateUserEngagement ::
  "ValidationThresholds \<Rightarrow> GitHubMetrics \<Rightarrow> NEARMetrics \<Rightarrow> ValidationWarning list
     \<Rightarrow> ValidationWarning list" where
  "validateUserEngagement this github near warns =
     (let githubUsers =
            set (commits_authors github @ pullRequests_authors github
                 @ issues_participants github);
          nearUsers = set (transactions_uniqueUsers near @ contract_uniqueCallers near);
          userDiff = \<bar>real (card githubUsers) - real (card nearUsers)\<bar>;
          maxDiff = js_mul (Fin (max (real (card githubUsers)) (real (card nearUsers))))
                      (Fin (maxUserDiffRatio this))
      in if js_lt maxDiff (Fin userDiff)
         then push warns
                \<lparr>code = ErrorCode_USER_COUNT_DISCREPANCY,
                 message = ''Large discrepancy between GitHub and NEAR user counts'',
                 err_context =
                   [(''githubUsers'', Fin (real (card githubUsers))),
                    (''nearUsers'', Fin (real (card nearUsers))),
                    (''difference'', Fin userDiff),
                    (''threshold'', maxDiff)]\<rparr>
         else warns)"

text \<open>
  \<open>now\<close> is the reading of \<^verbatim>\<open>Date.now()\<close> inside \<^verbatim>\<open>validateDataFreshness\<close>,
  \<open>now'\<close> the later reading that stamps the result.
\<close>

definition validate ::
  "ValidationThresholds \<Rightarrow> GitHubMetrics \<Rightarrow> NEARMetrics \<Rightarrow> real \<Rightarrow> real
     \<Rightarrow> ValidationResult" where
  "validate this github near now now' =
     (let errs0 = [];
          warns0 = [];
          errs1 =
            (if hasTimestampDrift this github near
             then push errs0
                    (createValidationError ''TIMESTAMP_DRIFT''
                       ''Significant time drift between metrics''
                       [(''drift'', Fin (calculateTimeDrift github near))])
             else errs0);
          errs2 = validateDataFreshness this github near errs1 now;
          warns1 = validateActivityCorrelation this github near warns0;
          warns2 = validateUserEngagement this github near warns1
      in \<lparr>isValid = (length errs2 = 0),
          errors = errs2,
          warnings = warns2,
          timestamp = now',
          metadata = [(''source'', ''github''), (''validationType'', ''data'')]\<rparr>)"

subsection \<open>The method on a heap\<close>

text \<open>
  The same method with its references written out. The heap is the list of the objects
  allocated, an address being an index: the two records that the arguments refer to,
  and the two arrays that the method allocates. A helper reads the records through
  their addresses when it is called and writes the array it was given; what it writes
  into the array is what the helper above returns.
\<close>

datatype heap_object =
    GitHubObject GitHubMetrics
  | NEARObject NEARMetrics
  | ArrayObject "ValidationError list"

type_synonym heap = "heap_object list"

definition read_github :: "heap \<Rightarrow> nat \<Rightarrow> GitHubMetrics option" where
  "read_github h a =
     (if a < length h then (case h ! a of GitHubObject x \<Rightarrow> Some x | _ \<Rightarrow> None) else None)"

definition read_near :: "heap \<Rightarrow> nat \<Rightarrow> NEARMetrics option" where
  "read_near h a =
     (if a < length h then (case h ! a of NEARObject x \<Rightarrow> Some x | _ \<Rightarrow> None) else None)"

definition read_array :: "heap \<Rightarrow> nat \<Rightarrow> ValidationError list option" where
  "read_array h a =
     (if a < length h then (case h ! a of ArrayObject xs \<Rightarrow> Some xs | _ \<Rightarrow> None) else None)"

text \<open>\<^verbatim>\<open>array.push(x)\<close> on the array at an address.\<close>

definition push_at :: "heap \<Rightarrow> nat \<Rightarrow> ValidationError \<Rightarrow> heap" where
  "push_at h a x =
     (case read_array h a of Some xs \<Rightarrow> h[a := ArrayObject (push xs x)] | None \<Rightarrow> h)"

definition validateDataFreshness_heap ::
  "ValidationThresholds \<Rightarrow> nat \<Rightarrow> nat \<Rightarrow> nat \<Rightarrow> real \<Rightarrow> heap \<Rightarrow> heap" where
  "validateDataFreshness_heap this github near errs now h =
     (case (read_github h github, read_near h near, read_array h errs) of
        (Some g, Some n, Some xs) \<Rightarrow>
          h[errs := ArrayObject (validateDataFreshness this g n xs now)]
      | _ \<Rightarrow> h)"

definition validateActivityCorrelation_heap ::
  "ValidationThresholds \<Rightarrow> nat \<Rightarrow> nat \<Rightarrow> nat \<Rightarrow> heap \<Rightarrow> heap" where
  "validateActivityCorrelation_heap this github near warns h =
     (case (read_github h github, read_near h near, read_array h warns) of
        (Some g, Some n, Some xs) \<Rightarrow>
          h[warns := ArrayObject (validateActivityCorrelation this g n xs)]
      | _ \<Rightarrow> h)"

definition validateUserEngagement_heap ::
  "ValidationThresholds \<Rightarrow> nat \<Rightarrow> nat \<Rightarrow> nat \<Rightarrow> heap \<Rightarrow> heap" where
  "validateUserEngagement_heap this github near warns h =
     (case (read_github h github, read_near h near, read_array h warns) of
        (Some g, Some n, Some xs) \<Rightarrow>
          h[warns := ArrayObject (validateUserEngagement this g n xs)]
      | _ \<Rightarrow> h)"

text \<open>
  The method: the result and the heap it leaves, or \<open>None\<close> when an argument does not
  refer to a record of its type.
\<close>

definition validate_heap ::
  "ValidationThresholds \<Rightarrow> nat \<Rightarrow> nat \<Rightarrow> real \<Rightarrow> real \<Rightarrow> heap
     \<Rightarrow> (ValidationResult \<times> heap) option" where
  "validate_heap this github near now now' h =
     (let errs = length h;
          warns = Suc (length h);
          h0 = h @ [ArrayObject [], ArrayObject []]
      in case (read_github h0 github, read_near h0 near) of
           (Some g, Some n) \<Rightarrow>
             (let h1 =
                    (if hasTimestampDrift this g n
                     then push_at h0 errs
                            (createValidationError ''TIMESTAMP_DRIFT''
                               ''Significant time drift between metrics''
                               [(''drift'', Fin (calculateTimeDrift g n))])
                     else h0);
                  h2 = validateDataFreshness_heap this github near errs now h1;
                  h3 = validateActivityCorrelation_heap this github near warns h2;
                  h4 = validateUserEngagement_heap this github near warns h3
              in case (read_array h4 errs, read_array h4 warns) of
                   (Some es, Some ws) \<Rightarrow>
                     Some (\<lparr>isValid = (length es = 0),
                            errors = es,
                            warnings = ws,
                            timestamp = now',
                            metadata =
                              [(''source'', ''github''), (''validationType'', ''data'')]\<rparr>,
                           h4)
                 | _ \<Rightarrow> None)
         | _ \<Rightarrow> None)"

subsection \<open>Records for the instances\<close>

text \<open>The two record literals, with every field the validator reads as an argument.\<close>

definition github_record ::
  "real \<Rightarrow> number \<Rightarrow> number \<Rightarrow> number \<Rightarrow> string list \<Rightarrow> string list \<Rightarrow> string list
     \<Rightarrow> GitHubMetrics" where
  "github_record ts c p i ca pa ip =
     \<lparr>metadata_collectionTimestamp = ts,
      commits_count = c, commits_authors = ca,
      pullRequests_merged = p, pullRequests_authors = pa,
      issues_closed = i, issues_participants = ip\<rparr>"

definition near_record ::
  "real \<Rightarrow> number \<Rightarrow> number \<Rightarrow> string list \<Rightarrow> string list \<Rightarrow> NEARMetrics" where
  "near_record ts t k tu cc =
     \<lparr>metadata_collectionTimestamp = ts,
      transactions_count = t, transactions_uniqueUsers = tu,
      contract_calls = k, contract_uniqueCallers = cc\<rparr>"

text \<open>A validator built with one key of the thresholds given.\<close>

definition with_maxTimeDrift :: "real \<Rightarrow> ValidationThresholds" where
  "with_maxTimeDrift v =
     CrossValidator
       \<lparr>maxTimeDrift_opt = Some v, minActivityCorrelation_opt = None,
        maxDataAge_opt = None, maxUserDiffRatio_opt = None\<rparr>"

definition with_minActivityCorrelation :: "real \<Rightarrow> ValidationThresholds" where
  "with_minActivityCorrelation v =
     CrossValidator
       \<lparr>maxTimeDrift_opt = None, minActivityCorrelation_opt = Some v,
        maxDataAge_opt = None, maxUserDiffRatio_opt = None\<rparr>"

definition with_maxUserDiffRatio :: "real \<Rightarrow> ValidationThresholds" where
  "with_maxUserDiffRatio v =
     CrossValidator
       \<lparr>maxTimeDrift_opt = None, minActivityCorrelation_opt = None,
        maxDataAge_opt = None, maxUserDiffRatio_opt = Some v\<rparr>"

text \<open>A number that is neither \<^verbatim>\<open>NaN\<close> nor negative (used in the proofs below).\<close>

fun nonneg_number :: "number \<Rightarrow> bool" where
  "nonneg_number (Fin x) = (0 \<le> x)"
| "nonneg_number PInf = True"
| "nonneg_number _ = False"

section \<open>What validate returns\<close>

subsection \<open>Rounding\<close>

lemma round_half_even_ge: "of_int k \<le> r \<Longrightarrow> k \<le> round_half_even r"
proof -
  assume "of_int k \<le> r"
  then have "k \<le> \<lfloor>r\<rfloor>" by (simp add: le_floor_iff)
  then show ?thesis unfolding round_half_even_def Let_def by simp
qed

lemma round_half_even_le: "r \<le> of_int k \<Longrightarrow> round_half_even r \<le> k"
proof -
  assume le: "r \<le> of_int k"
  then have f: "\<lfloor>r\<rfloor> \<le> k" by (simp add: floor_le_iff) 
  show ?thesis
  proof (cases "\<lfloor>r\<rfloor> = k")
    case True
    then have "r - of_int \<lfloor>r\<rfloor> \<le> 0" using le by simp
    then show ?thesis unfolding round_half_even_def Let_def using True by simp
  next
    case False
    then have "\<lfloor>r\<rfloor> + 1 \<le> k" using f by simp
    then show ?thesis unfolding round_half_even_def Let_def using f by simp
  qed
qed

lemma round_half_even_of_int: "round_half_even (of_int k) = k"
  by (simp add: round_half_even_def)

lemma powi_less_imp:
  assumes "(2::real) powi m < 2 powi n"
  shows "m < n"
proof (rule ccontr)
  assume "\<not> m < n"
  then have "n \<le> m" by simp
  then have "(2::real) powi n \<le> 2 powi m"
    by (intro power_int_increasing) simp_all
  with assms show False by simp
qed

lemma exponent_search_unique:
  "2 powi E \<le> x \<Longrightarrow> x < 2 powi (E + 1) \<Longrightarrow> lo \<le> E \<Longrightarrow> E < lo + 2 ^ n
     \<Longrightarrow> exponent_search n lo x = E"
proof (induction n arbitrary: lo)
  case 0
  then show ?case by simp
next
  case (Suc n)
  show ?case
  proof (cases "2 powi (lo + 2 ^ n) \<le> x")
    case True
    have "(2::real) powi (lo + 2 ^ n) < 2 powi (E + 1)"
      using True Suc.prems(2) by simp
    then have "lo + 2 ^ n < E + 1"
      by (rule powi_less_imp)
    then have "exponent_search n (lo + 2 ^ n) x = E"
      using Suc.prems by (intro Suc.IH) simp_all
    then show ?thesis using True by simp
  next
    case False
    have "(2::real) powi E < 2 powi (lo + 2 ^ n)"
      using False Suc.prems(1) by simp
    then have "E < lo + 2 ^ n"
      by (rule powi_less_imp)
    then have "exponent_search n lo x = E"
      using Suc.prems by (intro Suc.IH) simp_all
    then show ?thesis using False by simp
  qed
qed

lemma exponent_search_lower:
  "2 powi lo \<le> x \<Longrightarrow> 2 powi (exponent_search n lo x) \<le> x"
  by (induction n arbitrary: lo) simp_all

lemma round_double_zero: "round_double 0 = Fin 0"
proof -
  have "(0::real) < 2 powi (- 1022)" by (rule zero_less_power_int) simp
  then show ?thesis
    by (simp add: round_double_def round_half_even_def)
qed

lemma round_double_nonneg:
  assumes "0 \<le> x"
  shows "round_double x = PInf \<or> (\<exists>y. round_double x = Fin y \<and> 0 \<le> y)"
proof (cases "x = 0")
  case True
  then show ?thesis by (simp add: round_double_zero)
next
  case False
  then have pos: "0 < x" using assms by simp
  define e where "e = (if \<bar>x\<bar> < 2 powi (- 1022) then - 1074
                 else exponent_search 11 (- 1022) \<bar>x\<bar> - 52)"
  define y where "y = of_int (round_half_even (x / 2 powi e)) * (2::real) powi e"
  have "0 \<le> x / 2 powi e" using assms by simp
  then have "0 \<le> round_half_even (x / 2 powi e)"
    using round_half_even_ge [of 0] by simp
  then have "0 \<le> y" by (simp add: y_def)
  moreover have "round_double x = PInf \<or> round_double x = Fin y"
    using pos unfolding round_double_def e_def [symmetric] Let_def y_def [symmetric]
    by simp
  ultimately show ?thesis by blast
qed

lemma round_double_unit:
  assumes "0 \<le> x" "x \<le> 1"
  shows "\<exists>y. round_double x = Fin y \<and> 0 \<le> y \<and> y \<le> 1"
proof -
  define e where "e = (if \<bar>x\<bar> < 2 powi (- 1022) then - 1074
                 else exponent_search 11 (- 1022) \<bar>x\<bar> - 52)"
  define y where "y = of_int (round_half_even (x / 2 powi e)) * (2::real) powi e"
  have small: "\<not> 2 ^ 1024 \<le> \<bar>x\<bar>"
  proof -
    have "(1::real) < 2 ^ 1024" by (rule one_less_power) simp_all
    then show ?thesis using assms by simp
  qed
  have e_neg: "e \<le> - 52"
  proof (cases "\<bar>x\<bar> < 2 powi (- 1022)")
    case True
    then show ?thesis by (simp add: e_def)
  next
    case False
    then have "2 powi (- 1022) \<le> \<bar>x\<bar>" by simp
    then have "2 powi (exponent_search 11 (- 1022) \<bar>x\<bar>) \<le> \<bar>x\<bar>"
      by (rule exponent_search_lower)
    then have "(2::real) powi (exponent_search 11 (- 1022) \<bar>x\<bar>) < 2 powi 1"
      using assms by simp
    then have "exponent_search 11 (- 1022) \<bar>x\<bar> < 1"
      by (rule powi_less_imp)
    then show ?thesis using False by (simp add: e_def)
  qed
  have inv: "(2::real) powi (- e) = of_int (2 ^ nat (- e))"
    using e_neg by (simp add: power_int_def)
  have "x / 2 powi e = x * 2 powi (- e)"
    by (simp add: power_int_minus field_simps)
  also have "\<dots> \<le> 1 * 2 powi (- e)"
    using assms by (intro mult_right_mono) simp_all
  finally have "x / 2 powi e \<le> of_int (2 ^ nat (- e))"
    using inv by simp
  then have m_le: "round_half_even (x / 2 powi e) \<le> 2 ^ nat (- e)"
    by (rule round_half_even_le)
  have "0 \<le> x / 2 powi e" using assms by simp
  then have m_ge: "0 \<le> round_half_even (x / 2 powi e)"
    using round_half_even_ge [of 0] by simp
  have y_ge: "0 \<le> y" using m_ge by (simp add: y_def)
  have "y \<le> of_int (2 ^ nat (- e)) * 2 powi e"
    unfolding y_def using m_le by (intro mult_right_mono) simp_all
  also have "\<dots> = 2 powi (- e) * 2 powi e" using inv by simp
  also have "\<dots> = 1" by (simp add: power_int_minus)
  finally have y_le: "y \<le> 1" .
  have "\<not> 2 ^ 1024 \<le> \<bar>y\<bar>"
  proof -
    have "(1::real) < 2 ^ 1024" by (rule one_less_power) simp_all
    then show ?thesis using y_ge y_le by simp
  qed
  then have "round_double x = Fin y"
    using small unfolding round_double_def e_def [symmetric] Let_def y_def [symmetric]
    by simp
  then show ?thesis using y_ge y_le by blast
qed

text \<open>Evaluation at a normal number whose binary exponent is known.\<close>

lemma round_double_normal:
  assumes "2 powi E \<le> \<bar>x\<bar>" "\<bar>x\<bar> < 2 powi (E + 1)" "- 1022 \<le> E" "E < 1023"
  shows "round_double x
           = Fin (of_int (round_half_even (x / 2 powi (E - 52))) * 2 powi (E - 52))"
proof -
  define y where "y = of_int (round_half_even (x / 2 powi (E - 52))) * (2::real) powi (E - 52)"
  have top: "(2::real) powi (E + 1) \<le> 2 powi 1023"
    using assms(4) by (intro power_int_increasing) simp_all
  have lt: "(2::real) powi 1023 < 2 ^ 1024"
    by simp
  have small: "\<not> 2 ^ 1024 \<le> \<bar>x\<bar>"
    using assms(2) top lt by linarith
  have "(2::real) powi (- 1022) \<le> 2 powi E"
    using assms(3) by (intro power_int_increasing) simp_all
  then have normal: "\<not> \<bar>x\<bar> < 2 powi (- 1022)"
    using assms(1) by linarith
  have search: "exponent_search 11 (- 1022) \<bar>x\<bar> = E"
    using assms by (intro exponent_search_unique) simp_all
  define r where "r = x / 2 powi (E - 52)"
  have q: "\<bar>r\<bar> \<le> 2 ^ 53"
  proof -
    have "\<bar>r\<bar> = \<bar>x\<bar> * 2 powi (52 - E)"
      by (simp add: r_def power_int_diff field_simps)
    also have "\<dots> \<le> 2 powi (E + 1) * 2 powi (52 - E)"
      using assms(2) by (intro mult_right_mono) simp_all
    also have "\<dots> = 2 powi 53"
      by (simp flip: power_int_add)
    finally show ?thesis by simp
  qed
  have "r \<le> of_int (2 ^ 53)"
    using q by (simp add: abs_le_iff)
  then have m_le: "round_half_even r \<le> 2 ^ 53"
    by (rule round_half_even_le)
  have "of_int (- (2 ^ 53)) \<le> r"
    using q by (simp add: abs_le_iff)
  then have m_ge: "- (2 ^ 53) \<le> round_half_even r"
    by (rule round_half_even_ge)
  have m_abs: "\<bar>real_of_int (round_half_even r)\<bar> \<le> 2 ^ 53"
  proof -
    have "\<bar>round_half_even r\<bar> \<le> 2 ^ 53"
      using m_le m_ge by linarith
    then have "real_of_int \<bar>round_half_even r\<bar> \<le> real_of_int (2 ^ 53)"
      by (simp only: of_int_le_iff)
    then show ?thesis by simp
  qed
  have "\<bar>y\<bar> = \<bar>real_of_int (round_half_even r)\<bar> * 2 powi (E - 52)"
    by (simp add: y_def r_def abs_mult)
  also have "\<dots> \<le> 2 ^ 53 * 2 powi (E - 52)"
    using m_abs by (intro mult_right_mono) simp_all
  also have "\<dots> = 2 powi (E + 1)"
  proof -
    have "(2::real) powi (53 + (E - 52)) = 2 powi 53 * 2 powi (E - 52)"
      by (rule power_int_add) simp
    moreover have "53 + (E - 52) = E + 1" by simp
    ultimately show ?thesis by simp
  qed
  finally have y_small: "\<not> 2 ^ 1024 \<le> \<bar>y\<bar>"
    using top lt by linarith
  from small normal search
  have "round_double x = (if 2 ^ 1024 \<le> \<bar>y\<bar> then (if 0 < x then PInf else NInf) else Fin y)"
    unfolding round_double_def Let_def y_def by (simp only: if_False)
  with y_small show ?thesis
    by (simp only: if_False y_def)
qed

text \<open>The value that the literal \<^verbatim>\<open>0.3\<close> of the defaults denotes.\<close>

lemma literal_three_tenths: "round_double (3 / 10) = Fin (5404319552844595 / 2 ^ 54)"
  by (simp add: round_double_normal [of "- 2"] round_half_even_def)

subsection \<open>The two arrays\<close>

text \<open>The errors array: the drift error, then the two freshness errors.\<close>

lemma errors_validate:
  "errors (validate this github near now now') =
     (if \<bar>metadata_collectionTimestamp github - metadata_collectionTimestamp near\<bar>
           > maxTimeDrift this
      then [createValidationError ''TIMESTAMP_DRIFT'' ''Significant time drift between metrics''
              [(''drift'',
                Fin \<bar>metadata_collectionTimestamp github - metadata_collectionTimestamp near\<bar>)]]
      else [])
     @ (if now - metadata_collectionTimestamp github > maxDataAge this
        then [createValidationError ''STALE_DATA'' ''GitHub data is too old''
                [(''timestamp'', Fin (metadata_collectionTimestamp github)),
                 (''maxAge'', Fin (maxDataAge this))]]
        else [])
     @ (if now - metadata_collectionTimestamp near > maxDataAge this
        then [createValidationError ''STALE_DATA'' ''NEAR data is too old''
                [(''timestamp'', Fin (metadata_collectionTimestamp near)),
                 (''maxAge'', Fin (maxDataAge this))]]
        else [])"
  by (simp add: validate_def validateDataFreshness_def hasTimestampDrift_def
      calculateTimeDrift_def push_def Let_def)

text \<open>The warnings array: the correlation warning, then the user warning.\<close>

lemma warnings_validate:
  assumes "a = real (card (set (commits_authors github @ pullRequests_authors github
                                 @ issues_participants github)))"
    and "b = real (card (set (transactions_uniqueUsers near @ contract_uniqueCallers near)))"
  shows "warnings (validate this github near now now') =
     (if js_lt (calculateActivityCorrelation github near) (Fin (minActivityCorrelation this))
      then [createValidationError ''LOW_ACTIVITY_CORRELATION''
              ''Low correlation between GitHub and NEAR activity''
              [(''correlation'', calculateActivityCorrelation github near),
               (''threshold'', Fin (minActivityCorrelation this))]]
      else [])
     @ (if js_lt (js_mul (Fin (max a b)) (Fin (maxUserDiffRatio this))) (Fin \<bar>a - b\<bar>)
        then [\<lparr>code = ErrorCode_USER_COUNT_DISCREPANCY,
               message = ''Large discrepancy between GitHub and NEAR user counts'',
               err_context =
                 [(''githubUsers'', Fin a), (''nearUsers'', Fin b),
                  (''difference'', Fin \<bar>a - b\<bar>),
                  (''threshold'', js_mul (Fin (max a b)) (Fin (maxUserDiffRatio this)))]\<rparr>]
        else [])"
  unfolding assms
  by (simp add: validate_def validateActivityCorrelation_def validateUserEngagement_def
      push_def Let_def)

lemma low_correlation_warnings:
  "filter (\<lambda>w. code w = ''LOW_ACTIVITY_CORRELATION'')
     (warnings (validate this github near now now')) =
     (if js_lt (calculateActivityCorrelation github near) (Fin (minActivityCorrelation this))
      then [\<lparr>code = ''LOW_ACTIVITY_CORRELATION'',
             message = ''Low correlation between GitHub and NEAR activity'',
             err_context =
               [(''correlation'', calculateActivityCorrelation github near),
                (''threshold'', Fin (minActivityCorrelation this))]\<rparr>]
      else [])"
  by (simp add: warnings_validate [OF refl refl] createValidationError_def
      ErrorCode_USER_COUNT_DISCREPANCY_def)

lemma user_count_warnings:
  assumes "a = real (card (set (commits_authors github @ pullRequests_authors github
                                 @ issues_participants github)))"
    and "b = real (card (set (transactions_uniqueUsers near @ contract_uniqueCallers near)))"
  shows "filter (\<lambda>w. code w = ''USER_COUNT_DISCREPANCY'')
     (warnings (validate this github near now now')) =
     (if js_lt (js_mul (Fin (max a b)) (Fin (maxUserDiffRatio this))) (Fin \<bar>a - b\<bar>)
      then [\<lparr>code = ''USER_COUNT_DISCREPANCY'',
             message = ''Large discrepancy between GitHub and NEAR user counts'',
             err_context =
               [(''githubUsers'', Fin a), (''nearUsers'', Fin b),
                (''difference'', Fin \<bar>a - b\<bar>),
                (''threshold'', js_mul (Fin (max a b)) (Fin (maxUserDiffRatio this)))]\<rparr>]
      else [])"
  by (simp add: warnings_validate [OF assms] createValidationError_def
      ErrorCode_USER_COUNT_DISCREPANCY_def)

text \<open>A code occurs in an array when the array filtered by the code is not empty.\<close>

lemma code_mem_filter:
  "(c \<in> code ` set xs) = (filter (\<lambda>w. code w = c) xs \<noteq> [])"
  by (auto simp add: filter_empty_conv)

subsection \<open>Numbers that are not negative\<close>

lemma nonneg_round_double: "0 \<le> x \<Longrightarrow> nonneg_number (round_double x)"
  using round_double_nonneg [of x] by auto

lemma nonneg_js_add:
  "nonneg_number a \<Longrightarrow> nonneg_number b \<Longrightarrow> nonneg_number (js_add a b)"
  by (cases a; cases b) (simp_all add: nonneg_round_double)

lemma nonneg_js_div:
  "nonneg_number a \<Longrightarrow> 0 < d \<Longrightarrow> nonneg_number (js_div a (Fin d))"
  by (cases a) (simp_all add: nonneg_round_double)

text \<open>
  The divisor \<open>maxActivity\<close> is not zero where the quotient is taken, and a positive
  maximum is not zero.
\<close>

lemma positive_not_zero: "js_lt (Fin 0) m \<Longrightarrow> \<not> strict_eq m (Fin 0)"
  by (cases m) simp_all

lemma divisor_not_zero: "\<not> strict_eq m (Fin 0) \<Longrightarrow> m \<noteq> Fin 0"
  by (cases m) simp_all

text \<open>
  The quotient of the smaller by the larger of two numbers that are not negative lies
  between 0 and 1, unless both are infinite.
\<close>

lemma ratio_unit:
  assumes "nonneg_number a" "nonneg_number b" "\<not> (a = PInf \<and> b = PInf)"
  shows "\<exists>r. (if strict_eq (Math_max a b) (Fin 0) then Fin 1
              else js_div (Math_min a b) (Math_max a b)) = Fin r \<and> 0 \<le> r \<and> r \<le> 1"
proof (cases a)
  case (Fin x)
  note a = this
  show ?thesis
  proof (cases b)
    case (Fin y)
    show ?thesis
    proof (cases "max x y = 0")
      case True
      then show ?thesis using a Fin by (auto simp add: max_def split: if_splits)
    next
      case False
      have nn: "0 \<le> x" "0 \<le> y" using assms a Fin by simp_all
      have q: "0 \<le> min x y / max x y" "min x y / max x y \<le> 1"
        using nn False by (simp_all add: max_def min_def split: if_splits)
      obtain r where r: "round_double (min x y / max x y) = Fin r" "0 \<le> r" "r \<le> 1"
        using round_double_unit [OF q] by blast
      have mx: "Math_max a b = Fin (max x y)" and mn: "Math_min a b = Fin (min x y)"
        using a Fin by (simp_all add: max_def min_def)
      show ?thesis
        using False r by (simp add: mx mn)
    qed
  next
    case PInf
    then show ?thesis using a by simp
  qed (use assms in simp_all)
next
  case PInf
  note a = this
  show ?thesis
  proof (cases b)
    case (Fin y)
    then show ?thesis using a by simp
  qed (use assms a in simp_all)
qed (use assms in simp_all)

subsection \<open>The method on a heap returns what validate returns\<close>

lemma read_github_Some:
  "read_github h a = Some x \<longleftrightarrow> a < length h \<and> h ! a = GitHubObject x"
  by (auto simp add: read_github_def split: heap_object.splits)

lemma read_near_Some:
  "read_near h a = Some x \<longleftrightarrow> a < length h \<and> h ! a = NEARObject x"
  by (auto simp add: read_near_def split: heap_object.splits)

lemma read_array_Some:
  "read_array h a = Some x \<longleftrightarrow> a < length h \<and> h ! a = ArrayObject x"
  by (auto simp add: read_array_def split: heap_object.splits)

lemma validate_heap_result:
  assumes "read_github h g = Some github" "read_near h n = Some near"
  shows "validate_heap this g n now now' h =
     Some (validate this github near now now',
           h @ [ArrayObject (errors (validate this github near now now')),
                ArrayObject (warnings (validate this github near now now'))])"
proof -
  have g: "g < length h" "h ! g = GitHubObject github"
    using assms(1) by (simp_all add: read_github_Some)
  have n: "n < length h" "h ! n = NEARObject near"
    using assms(2) by (simp_all add: read_near_Some)
  define e1 where "e1 = (if hasTimestampDrift this github near
       then push [] (createValidationError ''TIMESTAMP_DRIFT''
                       ''Significant time drift between metrics''
                       [(''drift'', Fin (calculateTimeDrift github near))])
       else [])"
  define e2 where "e2 = validateDataFreshness this github near e1 now"
  define w1 where "w1 = validateActivityCorrelation this github near []"
  define w2 where "w2 = validateUserEngagement this github near w1"
  let ?h0 = "h @ [ArrayObject [], ArrayObject []]"
  have rg: "read_github (h @ [x, y]) g = Some github" for x y
    using g by (simp add: read_github_Some nth_append)
  have rn: "read_near (h @ [x, y]) n = Some near" for x y
    using n by (simp add: read_near_Some nth_append)
  have re: "read_array (h @ [ArrayObject x, y]) (length h) = Some x" for x y
    by (simp add: read_array_Some nth_append)
  have rw: "read_array (h @ [x, ArrayObject y]) (Suc (length h)) = Some y" for x y
    by (simp add: read_array_Some nth_append)
  have ue: "(h @ [x, y])[length h := z] = h @ [z, y]" for x y z
    by (simp add: list_update_append)
  have uw: "(h @ [x, y])[Suc (length h) := z] = h @ [x, z]" for x y z
    by (simp add: list_update_append)
  have h1: "(if hasTimestampDrift this github near
       then push_at ?h0 (length h)
              (createValidationError ''TIMESTAMP_DRIFT''
                 ''Significant time drift between metrics''
                 [(''drift'', Fin (calculateTimeDrift github near))])
       else ?h0) = h @ [ArrayObject e1, ArrayObject []]"
    by (simp add: push_at_def re ue e1_def)
  have h2: "validateDataFreshness_heap this g n (length h) now
       (h @ [ArrayObject e1, ArrayObject []]) = h @ [ArrayObject e2, ArrayObject []]"
    by (simp add: validateDataFreshness_heap_def rg rn re ue e2_def)
  have h3: "validateActivityCorrelation_heap this g n (Suc (length h))
       (h @ [ArrayObject e2, ArrayObject []]) = h @ [ArrayObject e2, ArrayObject w1]"
    by (simp add: validateActivityCorrelation_heap_def rg rn rw uw w1_def)
  have h4: "validateUserEngagement_heap this g n (Suc (length h))
       (h @ [ArrayObject e2, ArrayObject w1]) = h @ [ArrayObject e2, ArrayObject w2]"
    by (simp add: validateUserEngagement_heap_def rg rn rw uw w2_def)
  have v: "validate this github near now now' =
      \<lparr>isValid = (length e2 = 0), errors = e2, warnings = w2, timestamp = now',
       metadata = [(''source'', ''github''), (''validationType'', ''data'')]\<rparr>"
    by (simp add: validate_def Let_def e1_def e2_def w1_def w2_def)
  show ?thesis
    unfolding validate_heap_def Let_def
    by (simp only: rg rn h1 h2 h3 h4 re rw v option.case prod.case
        ValidationResult.simps)
qed

section \<open>The claims\<close>

text \<open>
  C1. For every pair of records, the result of \<open>validate\<close> has \<open>isValid\<close> true if
  and only if its errors list is empty. Warnings never affect it: \<open>isValid\<close> is decided
  by the three comparisons of timestamps that fill the errors list, and by nothing that a
  warning is computed from.
\<close>

theorem isValid_iff_no_errors:
  "isValid (validate this github near now now')
     = (errors (validate this github near now now') = [])
   \<and> isValid (validate this github near now now')
     = (\<not> \<bar>metadata_collectionTimestamp github - metadata_collectionTimestamp near\<bar>
            > maxTimeDrift this
        \<and> \<not> now - metadata_collectionTimestamp github > maxDataAge this
        \<and> \<not> now - metadata_collectionTimestamp near > maxDataAge this)"
  by (simp add: validate_def Let_def validateDataFreshness_def hasTimestampDrift_def push_def)

text \<open>
  C2, as stated, fails in its last part: a validator built with a negative
  \<open>maxTimeDrift\<close> reports \<open>TIMESTAMP_DRIFT\<close> for two records collected at the same
  time, since the drift 0 exceeds the threshold.
\<close>

theorem equal_timestamps_drift_counterexample:
  "metadata_collectionTimestamp (github_record 1000 (Fin 0) (Fin 0) (Fin 0) [] [] [])
     = metadata_collectionTimestamp (near_record 1000 (Fin 0) (Fin 0) [] [])
   \<and> map code
         (errors (validate (with_maxTimeDrift (- 1))
            (github_record 1000 (Fin 0) (Fin 0) (Fin 0) [] [] [])
            (near_record 1000 (Fin 0) (Fin 0) [] []) 1000 1000))
     = [''TIMESTAMP_DRIFT'']"
  by (simp add: errors_validate with_maxTimeDrift_def CrossValidator_def DEFAULT_THRESHOLDS_def
      github_record_def near_record_def createValidationError_def)

text \<open>
  C2, amended. For every pair of records, \<open>validate\<close> emits a \<open>TIMESTAMP_DRIFT\<close>
  error if and only if \<open>|tsA - tsB| > maxTimeDrift\<close>; when emitted there is exactly one
  such error and the \<open>drift\<close> of its context is \<open>|tsA - tsB|\<close>. When
  \<open>maxTimeDrift\<close> is not negative, records with equal collection timestamps never
  produce \<open>TIMESTAMP_DRIFT\<close>.
\<close>

theorem timestamp_drift_error:
  "filter (\<lambda>e. code e = ''TIMESTAMP_DRIFT'') (errors (validate this github near now now')) =
     (if \<bar>metadata_collectionTimestamp github - metadata_collectionTimestamp near\<bar>
           > maxTimeDrift this
      then [createValidationError ''TIMESTAMP_DRIFT'' ''Significant time drift between metrics''
              [(''drift'',
                Fin \<bar>metadata_collectionTimestamp github - metadata_collectionTimestamp near\<bar>)]]
      else [])
   \<and> (''TIMESTAMP_DRIFT'' \<in> code ` set (errors (validate this github near now now')))
       = (\<bar>metadata_collectionTimestamp github - metadata_collectionTimestamp near\<bar>
            > maxTimeDrift this)
   \<and> (0 \<le> maxTimeDrift this \<longrightarrow>
        metadata_collectionTimestamp github = metadata_collectionTimestamp near \<longrightarrow>
        ''TIMESTAMP_DRIFT'' \<notin> code ` set (errors (validate this github near now now')))"
  by (auto simp add: errors_validate createValidationError_def)

text \<open>
  The instances: the defaults and two records collected at time 1000 (no drift error),
  and the defaults and two records collected seven hours apart (one drift error, whose
  context holds the drift of 25200000 ms).
\<close>

theorem timestamp_drift_error_witness:
  "0 \<le> maxTimeDrift DEFAULT_THRESHOLDS
   \<and> metadata_collectionTimestamp (github_record 1000 (Fin 0) (Fin 0) (Fin 0) [] [] [])
       = metadata_collectionTimestamp (near_record 1000 (Fin 0) (Fin 0) [] [])
   \<and> ''TIMESTAMP_DRIFT'' \<notin> code ` set (errors (validate DEFAULT_THRESHOLDS
         (github_record 1000 (Fin 0) (Fin 0) (Fin 0) [] [] [])
         (near_record 1000 (Fin 0) (Fin 0) [] []) 1000 1000))
   \<and> filter (\<lambda>e. code e = ''TIMESTAMP_DRIFT'')
        (errors (validate DEFAULT_THRESHOLDS
           (github_record 0 (Fin 0) (Fin 0) (Fin 0) [] [] [])
           (near_record 25200000 (Fin 0) (Fin 0) [] []) 25200000 25200000))
       = [\<lparr>code = ''TIMESTAMP_DRIFT'', message = ''Significant time drift between metrics'',
            err_context = [(''drift'', Fin 25200000)]\<rparr>]"
  using
    timestamp_drift_error [of DEFAULT_THRESHOLDS
      "github_record 1000 (Fin 0) (Fin 0) (Fin 0) [] [] []"
      "near_record 1000 (Fin 0) (Fin 0) [] []" 1000 1000]
    timestamp_drift_error [of DEFAULT_THRESHOLDS
      "github_record 0 (Fin 0) (Fin 0) (Fin 0) [] [] []"
      "near_record 25200000 (Fin 0) (Fin 0) [] []" 25200000 25200000]
  by (simp add: DEFAULT_THRESHOLDS_def github_record_def near_record_def
      createValidationError_def)

text \<open>
  C3, as stated, fails in its bound: counters that are not negative can make both sums
  overflow. With the counters \<open>2^1023\<close> both aggregates are \<open>Infinity\<close> and the
  correlation, \<open>Infinity / Infinity\<close>, is \<open>NaN\<close>, which is not in \<open>[0, 1]\<close>.
\<close>

theorem overflow_correlation_counterexample:
  "(0::real) \<le> 2 ^ 1023
   \<and> calculateActivityCorrelation
        (github_record 0 (Fin (2 ^ 1023)) (Fin (2 ^ 1023)) (Fin 0) [] [] [])
        (near_record 0 (Fin (2 ^ 1023)) (Fin (2 ^ 1023)) [] []) = NaN"
  by (simp add: calculateActivityCorrelation_def github_record_def near_record_def
      round_double_def)

text \<open>
  C3, amended. With \<open>activityA = (commits + mergedPRs + closedIssues) / 3\<close> and
  \<open>activityB = (transactions + contractCalls) / 2\<close>, in the arithmetic of doubles:
  the correlation computed is \<open>min activityA activityB / max activityA activityB\<close>
  whenever the maximum is positive; for finite counters that are not negative it is a
  finite number between 0 and 1, unless both aggregates overflow to \<open>Infinity\<close>; and a
  \<open>LOW_ACTIVITY_CORRELATION\<close> warning, with the correlation and the threshold as its
  context, is emitted if and only if the correlation is less than
  \<open>minActivityCorrelation\<close>.
\<close>

theorem activity_correlation_warning:
  assumes "activityA =
             js_div
               (js_add (js_add (commits_count github) (pullRequests_merged github))
                  (issues_closed github))
               (Fin 3)"
    and "activityB = js_div (js_add (transactions_count near) (contract_calls near)) (Fin 2)"
  shows "(js_lt (Fin 0) (Math_max activityA activityB) \<longrightarrow>
            calculateActivityCorrelation github near
              = js_div (Math_min activityA activityB) (Math_max activityA activityB))
     \<and> (commits_count github = Fin c \<and> pullRequests_merged github = Fin p
          \<and> issues_closed github = Fin i \<and> transactions_count near = Fin t
          \<and> contract_calls near = Fin k
          \<and> 0 \<le> c \<and> 0 \<le> p \<and> 0 \<le> i \<and> 0 \<le> t \<and> 0 \<le> k
          \<and> \<not> (activityA = PInf \<and> activityB = PInf) \<longrightarrow>
         (\<exists>r. calculateActivityCorrelation github near = Fin r \<and> 0 \<le> r \<and> r \<le> 1))
     \<and> (''LOW_ACTIVITY_CORRELATION''
           \<in> code ` set (warnings (validate this github near now now')))
         = js_lt (calculateActivityCorrelation github near) (Fin (minActivityCorrelation this))
     \<and> filter (\<lambda>w. code w = ''LOW_ACTIVITY_CORRELATION'')
          (warnings (validate this github near now now')) =
        (if js_lt (calculateActivityCorrelation github near)
              (Fin (minActivityCorrelation this))
         then [\<lparr>code = ''LOW_ACTIVITY_CORRELATION'',
                message = ''Low correlation between GitHub and NEAR activity'',
                err_context =
                  [(''correlation'', calculateActivityCorrelation github near),
                   (''threshold'', Fin (minActivityCorrelation this))]\<rparr>]
         else [])"
proof -
  have corr: "calculateActivityCorrelation github near =
      (if strict_eq (Math_max activityA activityB) (Fin 0) then Fin 1
       else js_div (Math_min activityA activityB) (Math_max activityA activityB))"
    by (simp add: calculateActivityCorrelation_def Let_def assms)
  have quotient: "js_lt (Fin 0) (Math_max activityA activityB) \<longrightarrow>
      calculateActivityCorrelation github near
        = js_div (Math_min activityA activityB) (Math_max activityA activityB)"
    using positive_not_zero [of "Math_max activityA activityB"] by (simp add: corr)
  have unit: "\<exists>r. calculateActivityCorrelation github near = Fin r \<and> 0 \<le> r \<and> r \<le> 1"
    if counters: "commits_count github = Fin c" "pullRequests_merged github = Fin p"
      "issues_closed github = Fin i" "transactions_count near = Fin t"
      "contract_calls near = Fin k"
      and nn: "0 \<le> c" "0 \<le> p" "0 \<le> i" "0 \<le> t" "0 \<le> k"
      and fin: "\<not> (activityA = PInf \<and> activityB = PInf)"
  proof -
    have "nonneg_number (js_add (js_add (Fin c) (Fin p)) (Fin i))"
      using nn by (intro nonneg_js_add) simp_all
    then have a: "nonneg_number activityA"
      unfolding assms counters by (rule nonneg_js_div) simp
    have "nonneg_number (js_add (Fin t) (Fin k))"
      using nn by (intro nonneg_js_add) simp_all
    then have b: "nonneg_number activityB"
      unfolding assms counters by (rule nonneg_js_div) simp
    show ?thesis
      unfolding corr by (rule ratio_unit [OF a b fin])
  qed
  have present: "(''LOW_ACTIVITY_CORRELATION''
        \<in> code ` set (warnings (validate this github near now now')))
      = js_lt (calculateActivityCorrelation github near) (Fin (minActivityCorrelation this))"
    by (simp add: code_mem_filter low_correlation_warnings)
  show ?thesis
    using quotient unit present low_correlation_warnings [of this github near now now']
    by blast
qed

text \<open>
  The instances. Commits 3, merged pull requests 2, closed issues 0 against transactions
  12 and contract calls 8: \<open>activityA\<close> is the double nearest to \<open>5/3\<close>,
  \<open>activityB\<close> is 10, the correlation is the double \<open>6004799503160662 / 2^55\<close>
  (printed 0.16666666666666669), below the default threshold, and the warning is
  emitted. Commits 3 against transactions 10, with the threshold the double nearest to
  \<open>0.2\<close>: the correlation is that same double, not less than the threshold, and no
  warning is emitted.
\<close>

theorem activity_correlation_warning_witness:
  "js_div
     (js_add
        (js_add (commits_count (github_record 0 (Fin 3) (Fin 2) (Fin 0) [] [] []))
           (pullRequests_merged (github_record 0 (Fin 3) (Fin 2) (Fin 0) [] [] [])))
        (issues_closed (github_record 0 (Fin 3) (Fin 2) (Fin 0) [] [] [])))
     (Fin 3) = Fin (7505999378950827 / 2 ^ 52)
   \<and> js_div
        (js_add (transactions_count (near_record 0 (Fin 12) (Fin 8) [] []))
           (contract_calls (near_record 0 (Fin 12) (Fin 8) [] [])))
        (Fin 2) = Fin 10
   \<and> calculateActivityCorrelation (github_record 0 (Fin 3) (Fin 2) (Fin 0) [] [] [])
        (near_record 0 (Fin 12) (Fin 8) [] []) = Fin (6004799503160662 / 2 ^ 55)
   \<and> (0::real) \<le> 6004799503160662 / 2 ^ 55 \<and> (6004799503160662::real) / 2 ^ 55 \<le> 1
   \<and> warnings (validate DEFAULT_THRESHOLDS (github_record 0 (Fin 3) (Fin 2) (Fin 0) [] [] [])
        (near_record 0 (Fin 12) (Fin 8) [] []) 0 0)
      = [\<lparr>code = ''LOW_ACTIVITY_CORRELATION'',
           message = ''Low correlation between GitHub and NEAR activity'',
           err_context =
             [(''correlation'', Fin (6004799503160662 / 2 ^ 55)),
              (''threshold'', Fin (5404319552844595 / 2 ^ 54))]\<rparr>]
   \<and> calculateActivityCorrelation (github_record 0 (Fin 3) (Fin 0) (Fin 0) [] [] [])
        (near_record 0 (Fin 10) (Fin 0) [] []) = Fin (3602879701896397 / 2 ^ 54)
   \<and> warnings (validate (with_minActivityCorrelation (3602879701896397 / 2 ^ 54))
        (github_record 0 (Fin 3) (Fin 0) (Fin 0) [] [] [])
        (near_record 0 (Fin 10) (Fin 0) [] []) 0 0) = []"
proof -
  let ?g = "github_record 0 (Fin 3) (Fin 2) (Fin 0) [] [] []"
  let ?n = "near_record 0 (Fin 12) (Fin 8) [] []"
  let ?g' = "github_record 0 (Fin 3) (Fin 0) (Fin 0) [] [] []"
  let ?n' = "near_record 0 (Fin 10) (Fin 0) [] []"
  have ints: "round_double 3 = Fin 3" "round_double 5 = Fin 5" "round_double 10 = Fin 10"
    "round_double 20 = Fin 20" "round_double 1 = Fin 1"
    by (simp_all add: round_double_normal [of 0] round_double_normal [of 1]
        round_double_normal [of 2] round_double_normal [of 3] round_double_normal [of 4]
        round_half_even_def)
  have third: "round_double (5 / 3) = Fin (7505999378950827 / 2 ^ 52)"
    by (simp add: round_double_normal [of 0] round_half_even_def)
  have sixth: "round_double (7505999378950827 / (10 * 2 ^ 52)) = Fin (6004799503160662 / 2 ^ 55)"
    by (simp add: round_double_normal [of "- 3"] round_half_even_def)
  have fifth: "round_double (1 / 5) = Fin (3602879701896397 / 2 ^ 54)"
    by (simp add: round_double_normal [of "- 3"] round_half_even_def)
  have a: "js_div
      (js_add (js_add (commits_count ?g) (pullRequests_merged ?g)) (issues_closed ?g))
      (Fin 3) = Fin (7505999378950827 / 2 ^ 52)"
    using third by (simp add: github_record_def ints)
  have b: "js_div (js_add (transactions_count ?n) (contract_calls ?n)) (Fin 2) = Fin 10"
    by (simp add: near_record_def ints)
  note inst = activity_correlation_warning [OF a [symmetric] b [symmetric],
      of 3 2 0 12 8 DEFAULT_THRESHOLDS 0 0]
  have corr: "calculateActivityCorrelation ?g ?n = Fin (6004799503160662 / 2 ^ 55)"
    using inst sixth by simp
  have range: "(0::real) \<le> 6004799503160662 / 2 ^ 55" "(6004799503160662::real) / 2 ^ 55 \<le> 1"
    by simp_all
  have warn: "warnings (validate DEFAULT_THRESHOLDS ?g ?n 0 0)
      = [\<lparr>code = ''LOW_ACTIVITY_CORRELATION'',
           message = ''Low correlation between GitHub and NEAR activity'',
           err_context =
             [(''correlation'', Fin (6004799503160662 / 2 ^ 55)),
              (''threshold'', Fin (5404319552844595 / 2 ^ 54))]\<rparr>]"
    unfolding warnings_validate [OF refl refl] corr
    by (simp add: DEFAULT_THRESHOLDS_def github_record_def near_record_def
        createValidationError_def round_double_zero)
  have corr': "calculateActivityCorrelation ?g' ?n' = Fin (3602879701896397 / 2 ^ 54)"
    using fifth by (simp add: calculateActivityCorrelation_def github_record_def
        near_record_def ints)
  have warn': "warnings (validate (with_minActivityCorrelation (3602879701896397 / 2 ^ 54))
      ?g' ?n' 0 0) = []"
    unfolding warnings_validate [OF refl refl] corr'
    by (simp add: with_minActivityCorrelation_def CrossValidator_def DEFAULT_THRESHOLDS_def
        github_record_def near_record_def round_double_zero)
  show ?thesis
    using a b corr range warn corr' warn' by (intro conjI)
qed

text \<open>
  C4. With \<open>usersA\<close> the union of the commit authors, the pull request authors and the
  issue participants, and \<open>usersB\<close> the union of the transaction senders and the
  contract callers, each identifier counted once, and \<open>allowed\<close> the product of
  doubles \<open>max (card usersA) (card usersB) * maxUserDiffRatio\<close>: a
  \<open>USER_COUNT_DISCREPANCY\<close> warning is emitted if and only if
  \<open>|card usersA - card usersB| > allowed\<close>. Where the product is exact, that is the
  comparison with the product of real numbers. When both unions are empty no warning is
  emitted.
\<close>

theorem user_count_discrepancy_warning:
  assumes "usersA = set (commits_authors github) \<union> set (pullRequests_authors github)
                    \<union> set (issues_participants github)"
    and "usersB = set (transactions_uniqueUsers near) \<union> set (contract_uniqueCallers near)"
    and "allowed = js_mul (Fin (max (real (card usersA)) (real (card usersB))))
                     (Fin (maxUserDiffRatio this))"
  shows "(''USER_COUNT_DISCREPANCY'' \<in> code ` set (warnings (validate this github near now now')))
       = js_lt allowed (Fin \<bar>real (card usersA) - real (card usersB)\<bar>)
     \<and> filter (\<lambda>w. code w = ''USER_COUNT_DISCREPANCY'')
          (warnings (validate this github near now now')) =
        (if js_lt allowed (Fin \<bar>real (card usersA) - real (card usersB)\<bar>)
         then [\<lparr>code = ''USER_COUNT_DISCREPANCY'',
                message = ''Large discrepancy between GitHub and NEAR user counts'',
                err_context =
                  [(''githubUsers'', Fin (real (card usersA))),
                   (''nearUsers'', Fin (real (card usersB))),
                   (''difference'', Fin \<bar>real (card usersA) - real (card usersB)\<bar>),
                   (''threshold'', allowed)]\<rparr>]
         else [])
     \<and> (allowed = Fin (max (real (card usersA)) (real (card usersB)) * maxUserDiffRatio this)
          \<longrightarrow>
          (''USER_COUNT_DISCREPANCY''
             \<in> code ` set (warnings (validate this github near now now')))
          = (\<bar>real (card usersA) - real (card usersB)\<bar>
               > max (real (card usersA)) (real (card usersB)) * maxUserDiffRatio this))
     \<and> (usersA = {} \<and> usersB = {} \<longrightarrow>
          ''USER_COUNT_DISCREPANCY'' \<notin> code ` set (warnings (validate this github near now now')))"
proof -
  have a: "real (card usersA)
      = real (card (set (commits_authors github @ pullRequests_authors github
                         @ issues_participants github)))"
    by (simp add: assms Un_assoc)
  have b: "real (card usersB)
      = real (card (set (transactions_uniqueUsers near @ contract_uniqueCallers near)))"
    by (simp add: assms)
  note filtered = user_count_warnings [OF a b, of this now now', folded assms(3)]
  have present: "(''USER_COUNT_DISCREPANCY''
        \<in> code ` set (warnings (validate this github near now now')))
      = js_lt allowed (Fin \<bar>real (card usersA) - real (card usersB)\<bar>)"
    by (simp add: code_mem_filter filtered)
  have exact: "allowed = Fin (max (real (card usersA)) (real (card usersB)) * maxUserDiffRatio this)
      \<longrightarrow> js_lt allowed (Fin \<bar>real (card usersA) - real (card usersB)\<bar>)
          = (\<bar>real (card usersA) - real (card usersB)\<bar>
               > max (real (card usersA)) (real (card usersB)) * maxUserDiffRatio this)"
    by simp
  have empty: "usersA = {} \<and> usersB = {} \<longrightarrow>
      \<not> js_lt allowed (Fin \<bar>real (card usersA) - real (card usersB)\<bar>)"
    by (auto simp add: assms(3) round_double_zero)
  show ?thesis
    using present filtered exact empty by simp
qed

text \<open>
  The instances: two records without any user (no warning); four users on the one
  side, one of them named twice, against one user on the other, where the difference 3
  exceeds the allowed \<open>4 * 0.5\<close> and the warning is emitted; and ten users against
  three with the ratio the double nearest to \<open>0.7\<close>, where the product of doubles is
  7, above the product of reals, and the difference 7 does not exceed it.
\<close>

theorem user_count_discrepancy_warning_witness:
  "set (commits_authors (github_record 0 (Fin 0) (Fin 0) (Fin 0) [] [] []))
     \<union> set (pullRequests_authors (github_record 0 (Fin 0) (Fin 0) (Fin 0) [] [] []))
     \<union> set (issues_participants (github_record 0 (Fin 0) (Fin 0) (Fin 0) [] [] [])) = {}
   \<and> set (transactions_uniqueUsers (near_record 0 (Fin 0) (Fin 0) [] []))
     \<union> set (contract_uniqueCallers (near_record 0 (Fin 0) (Fin 0) [] [])) = {}
   \<and> ''USER_COUNT_DISCREPANCY'' \<notin> code ` set (warnings (validate DEFAULT_THRESHOLDS
         (github_record 0 (Fin 0) (Fin 0) (Fin 0) [] [] [])
         (near_record 0 (Fin 0) (Fin 0) [] []) 0 0))
   \<and> js_mul (Fin (max (real (card {''ann'', ''bob'', ''cy'', ''dee''})) (real (card {''ann''}))))
        (Fin (maxUserDiffRatio DEFAULT_THRESHOLDS))
      = Fin (max (real (card {''ann'', ''bob'', ''cy'', ''dee''})) (real (card {''ann''}))
             * maxUserDiffRatio DEFAULT_THRESHOLDS)
   \<and> filter (\<lambda>w. code w = ''USER_COUNT_DISCREPANCY'')
        (warnings (validate DEFAULT_THRESHOLDS
           (github_record 0 (Fin 0) (Fin 0) (Fin 0) [''ann'', ''bob''] [''bob'', ''cy''] [''dee''])
           (near_record 0 (Fin 0) (Fin 0) [''ann''] [''ann'']) 0 0))
      = [\<lparr>code = ''USER_COUNT_DISCREPANCY'',
           message = ''Large discrepancy between GitHub and NEAR user counts'',
           err_context =
             [(''githubUsers'', Fin 4), (''nearUsers'', Fin 1), (''difference'', Fin 3),
              (''threshold'', Fin 2)]\<rparr>]
   \<and> js_mul (Fin 10) (Fin (6305039478318694 / 2 ^ 53)) = Fin 7
   \<and> (10::real) * (6305039478318694 / 2 ^ 53) < 7
   \<and> ''USER_COUNT_DISCREPANCY'' \<notin> code ` set (warnings
        (validate (with_maxUserDiffRatio (6305039478318694 / 2 ^ 53))
           (github_record 0 (Fin 0) (Fin 0) (Fin 0)
              [''u0'', ''u1'', ''u2'', ''u3'', ''u4''] [''u5'', ''u6'', ''u7'', ''u0'']
              [''u8'', ''u9''])
           (near_record 0 (Fin 0) (Fin 0) [''u0'', ''u1''] [''u2'', ''u1'']) 0 0))"
proof -
  let ?g0 = "github_record 0 (Fin 0) (Fin 0) (Fin 0) [] [] []"
  let ?n0 = "near_record 0 (Fin 0) (Fin 0) [] []"
  let ?g1 = "github_record 0 (Fin 0) (Fin 0) (Fin 0) [''ann'', ''bob''] [''bob'', ''cy''] [''dee'']"
  let ?n1 = "near_record 0 (Fin 0) (Fin 0) [''ann''] [''ann'']"
  let ?g2 = "github_record 0 (Fin 0) (Fin 0) (Fin 0)
      [''u0'', ''u1'', ''u2'', ''u3'', ''u4''] [''u5'', ''u6'', ''u7'', ''u0''] [''u8'', ''u9'']"
  let ?n2 = "near_record 0 (Fin 0) (Fin 0) [''u0'', ''u1''] [''u2'', ''u1'']"
  let ?A2 = "{''u0'', ''u1'', ''u2'', ''u3'', ''u4'', ''u5'', ''u6'', ''u7'', ''u8'', ''u9''}"
  let ?B2 = "{''u0'', ''u1'', ''u2''}"
  have a0: "{} = set (commits_authors ?g0) \<union> set (pullRequests_authors ?g0)
                 \<union> set (issues_participants ?g0)"
    by (simp add: github_record_def)
  have b0: "{} = set (transactions_uniqueUsers ?n0) \<union> set (contract_uniqueCallers ?n0)"
    by (simp add: near_record_def)
  have none: "''USER_COUNT_DISCREPANCY''
      \<notin> code ` set (warnings (validate DEFAULT_THRESHOLDS ?g0 ?n0 0 0))"
    using user_count_discrepancy_warning [OF a0 b0 refl, of DEFAULT_THRESHOLDS 0 0] by blast
  have a1: "{''ann'', ''bob'', ''cy'', ''dee''}
      = set (commits_authors ?g1) \<union> set (pullRequests_authors ?g1)
        \<union> set (issues_participants ?g1)"
    by (auto simp add: github_record_def)
  have b1: "{''ann''} = set (transactions_uniqueUsers ?n1) \<union> set (contract_uniqueCallers ?n1)"
    by (simp add: near_record_def)
  have sizes: "card {''ann'', ''bob'', ''cy'', ''dee''} = 4" "card {''ann''} = 1"
    by simp_all
  have ratio: "maxUserDiffRatio DEFAULT_THRESHOLDS = 1 / 2"
    by (simp add: DEFAULT_THRESHOLDS_def)
  have two: "round_double 2 = Fin 2"
    by (simp add: round_double_normal [of 1] round_half_even_def)
  have allowed1: "js_mul (Fin (max (real (card {''ann'', ''bob'', ''cy'', ''dee''}))
        (real (card {''ann''})))) (Fin (maxUserDiffRatio DEFAULT_THRESHOLDS))
      = Fin (max (real (card {''ann'', ''bob'', ''cy'', ''dee''})) (real (card {''ann''}))
             * maxUserDiffRatio DEFAULT_THRESHOLDS)"
    unfolding sizes ratio by (simp add: two)
  have one: "filter (\<lambda>w. code w = ''USER_COUNT_DISCREPANCY'')
        (warnings (validate DEFAULT_THRESHOLDS ?g1 ?n1 0 0))
      = [\<lparr>code = ''USER_COUNT_DISCREPANCY'',
           message = ''Large discrepancy between GitHub and NEAR user counts'',
           err_context =
             [(''githubUsers'', Fin 4), (''nearUsers'', Fin 1), (''difference'', Fin 3),
              (''threshold'', Fin 2)]\<rparr>]"
    using user_count_discrepancy_warning [OF a1 b1 refl, of DEFAULT_THRESHOLDS 0 0]
    unfolding sizes ratio by (simp add: two)
  have a2: "?A2 = set (commits_authors ?g2) \<union> set (pullRequests_authors ?g2)
        \<union> set (issues_participants ?g2)"
    by (auto simp add: github_record_def)
  have b2: "?B2 = set (transactions_uniqueUsers ?n2) \<union> set (contract_uniqueCallers ?n2)"
    by (auto simp add: near_record_def)
  have sizes2: "card ?A2 = 10" "card ?B2 = 3"
    by simp_all
  have ratio2: "maxUserDiffRatio (with_maxUserDiffRatio (6305039478318694 / 2 ^ 53))
      = 6305039478318694 / 2 ^ 53"
    by (simp add: with_maxUserDiffRatio_def CrossValidator_def)
  have rounded: "round_double (15762598695796735 / 2251799813685248) = Fin 7"
    by (simp add: round_double_normal [of 2] round_half_even_def)
  have seven: "js_mul (Fin 10) (Fin (6305039478318694 / 2 ^ 53)) = Fin 7"
    by (simp add: rounded)
  have below: "(10::real) * (6305039478318694 / 2 ^ 53) < 7"
    by simp
  have quiet: "''USER_COUNT_DISCREPANCY'' \<notin> code ` set (warnings
        (validate (with_maxUserDiffRatio (6305039478318694 / 2 ^ 53)) ?g2 ?n2 0 0))"
    using user_count_discrepancy_warning [OF a2 b2 refl,
        of "with_maxUserDiffRatio (6305039478318694 / 2 ^ 53)" 0 0]
    unfolding sizes2 ratio2 by (simp add: rounded)
  show ?thesis
    using a0 [symmetric] b0 [symmetric] none allowed1 one seven below quiet by (intro conjI)
qed

text \<open>
  C5. Freshness is evaluated for each record against the one reading \<open>now\<close> of the
  clock: a \<open>STALE_DATA\<close> error, with the record's timestamp and \<open>maxDataAge\<close> as its
  context, is emitted for a record if and only if
  \<open>now - collectionTimestamp > maxDataAge\<close>. The errors of that code are the GitHub
  record's first, then the NEAR record's (two when both records are stale), and they
  follow the \<open>TIMESTAMP_DRIFT\<close> error when there is one.
\<close>

theorem stale_data_errors:
  "filter (\<lambda>e. code e = ''STALE_DATA'') (errors (validate this github near now now')) =
     (if now - metadata_collectionTimestamp github > maxDataAge this
      then [\<lparr>code = ''STALE_DATA'', message = ''GitHub data is too old'',
             err_context =
               [(''timestamp'', Fin (metadata_collectionTimestamp github)),
                (''maxAge'', Fin (maxDataAge this))]\<rparr>]
      else [])
     @ (if now - metadata_collectionTimestamp near > maxDataAge this
        then [\<lparr>code = ''STALE_DATA'', message = ''NEAR data is too old'',
               err_context =
                 [(''timestamp'', Fin (metadata_collectionTimestamp near)),
                  (''maxAge'', Fin (maxDataAge this))]\<rparr>]
        else [])
   \<and> length (filter (\<lambda>e. code e = ''STALE_DATA'') (errors (validate this github near now now')))
       = (if now - metadata_collectionTimestamp github > maxDataAge this then 1 else 0)
         + (if now - metadata_collectionTimestamp near > maxDataAge this then 1 else 0)
   \<and> errors (validate this github near now now') =
       filter (\<lambda>e. code e = ''TIMESTAMP_DRIFT'') (errors (validate this github near now now'))
       @ filter (\<lambda>e. code e = ''STALE_DATA'') (errors (validate this github near now now'))"
  by (simp add: errors_validate createValidationError_def)

text \<open>
  The instances, with the defaults and the clock at 100000000: two stale records (two
  errors, the GitHub record's first); a stale GitHub record and a fresh NEAR record more
  than six hours apart (the drift error, then the one freshness error); and a GitHub
  record of age \<open>maxDataAge\<close> exactly, which is fresh, beside a NEAR record one
  millisecond older, which is stale.
\<close>

theorem stale_data_errors_witness:
  "errors (validate DEFAULT_THRESHOLDS
      (github_record 0 (Fin 0) (Fin 0) (Fin 0) [] [] [])
      (near_record 1000 (Fin 0) (Fin 0) [] []) 100000000 100000000)
     = [\<lparr>code = ''STALE_DATA'', message = ''GitHub data is too old'',
          err_context = [(''timestamp'', Fin 0), (''maxAge'', Fin 86400000)]\<rparr>,
        \<lparr>code = ''STALE_DATA'', message = ''NEAR data is too old'',
          err_context = [(''timestamp'', Fin 1000), (''maxAge'', Fin 86400000)]\<rparr>]
   \<and> errors (validate DEFAULT_THRESHOLDS
        (github_record 0 (Fin 0) (Fin 0) (Fin 0) [] [] [])
        (near_record 30000000 (Fin 0) (Fin 0) [] []) 100000000 100000000)
     = [\<lparr>code = ''TIMESTAMP_DRIFT'', message = ''Significant time drift between metrics'',
          err_context = [(''drift'', Fin 30000000)]\<rparr>,
        \<lparr>code = ''STALE_DATA'', message = ''GitHub data is too old'',
          err_context = [(''timestamp'', Fin 0), (''maxAge'', Fin 86400000)]\<rparr>]
   \<and> errors (validate DEFAULT_THRESHOLDS
        (github_record 13600000 (Fin 0) (Fin 0) (Fin 0) [] [] [])
        (near_record 13599999 (Fin 0) (Fin 0) [] []) 100000000 100000000)
     = [\<lparr>code = ''STALE_DATA'', message = ''NEAR data is too old'',
          err_context = [(''timestamp'', Fin 13599999), (''maxAge'', Fin 86400000)]\<rparr>]"
proof -
  let ?g = "github_record 0 (Fin 0) (Fin 0) (Fin 0) [] [] []"
  have both: "errors (validate DEFAULT_THRESHOLDS ?g
        (near_record 1000 (Fin 0) (Fin 0) [] []) 100000000 100000000)
     = [\<lparr>code = ''STALE_DATA'', message = ''GitHub data is too old'',
          err_context = [(''timestamp'', Fin 0), (''maxAge'', Fin 86400000)]\<rparr>,
        \<lparr>code = ''STALE_DATA'', message = ''NEAR data is too old'',
          err_context = [(''timestamp'', Fin 1000), (''maxAge'', Fin 86400000)]\<rparr>]"
    using stale_data_errors [of DEFAULT_THRESHOLDS ?g
        "near_record 1000 (Fin 0) (Fin 0) [] []" 100000000 100000000]
    by (simp add: DEFAULT_THRESHOLDS_def github_record_def near_record_def
        errors_validate createValidationError_def)
  have drift: "errors (validate DEFAULT_THRESHOLDS ?g
        (near_record 30000000 (Fin 0) (Fin 0) [] []) 100000000 100000000)
     = [\<lparr>code = ''TIMESTAMP_DRIFT'', message = ''Significant time drift between metrics'',
          err_context = [(''drift'', Fin 30000000)]\<rparr>,
        \<lparr>code = ''STALE_DATA'', message = ''GitHub data is too old'',
          err_context = [(''timestamp'', Fin 0), (''maxAge'', Fin 86400000)]\<rparr>]"
    using stale_data_errors [of DEFAULT_THRESHOLDS ?g
        "near_record 30000000 (Fin 0) (Fin 0) [] []" 100000000 100000000]
    by (simp add: DEFAULT_THRESHOLDS_def github_record_def near_record_def
        errors_validate createValidationError_def)
  have edge: "errors (validate DEFAULT_THRESHOLDS
        (github_record 13600000 (Fin 0) (Fin 0) (Fin 0) [] [] [])
        (near_record 13599999 (Fin 0) (Fin 0) [] []) 100000000 100000000)
     = [\<lparr>code = ''STALE_DATA'', message = ''NEAR data is too old'',
          err_context = [(''timestamp'', Fin 13599999), (''maxAge'', Fin 86400000)]\<rparr>]"
    using stale_data_errors [of DEFAULT_THRESHOLDS
        "github_record 13600000 (Fin 0) (Fin 0) (Fin 0) [] [] []"
        "near_record 13599999 (Fin 0) (Fin 0) [] []" 100000000 100000000]
    by (simp add: DEFAULT_THRESHOLDS_def github_record_def near_record_def
        errors_validate createValidationError_def)
  show ?thesis
    using both drift edge by (intro conjI)
qed

text \<open>
  C6, as stated, fails: the correlation of two idle records is 1, and a validator built
  with \<open>minActivityCorrelation = 2\<close> emits the warning for them, since \<open>1 < 2\<close>.
\<close>

theorem idle_records_warning_counterexample:
  "calculateActivityCorrelation (github_record 0 (Fin 0) (Fin 0) (Fin 0) [] [] [])
     (near_record 0 (Fin 0) (Fin 0) [] []) = Fin 1
   \<and> warnings (validate (with_minActivityCorrelation 2)
        (github_record 0 (Fin 0) (Fin 0) (Fin 0) [] [] [])
        (near_record 0 (Fin 0) (Fin 0) [] []) 0 0)
      = [\<lparr>code = ''LOW_ACTIVITY_CORRELATION'',
           message = ''Low correlation between GitHub and NEAR activity'',
           err_context = [(''correlation'', Fin 1), (''threshold'', Fin 2)]\<rparr>]"
  by (simp add: warnings_validate [OF refl refl] calculateActivityCorrelation_def
      with_minActivityCorrelation_def CrossValidator_def DEFAULT_THRESHOLDS_def
      github_record_def near_record_def createValidationError_def round_double_zero)

text \<open>
  C6, amended. For every pair of records whose activity aggregates are both 0, the
  correlation is 1, and no \<open>LOW_ACTIVITY_CORRELATION\<close> warning is emitted for any
  configured \<open>minActivityCorrelation\<close> that is at most 1 (the warning is emitted
  exactly when the threshold exceeds 1).
\<close>

theorem idle_records_correlation:
  assumes "js_div
             (js_add (js_add (commits_count github) (pullRequests_merged github))
                (issues_closed github))
             (Fin 3) = Fin 0"
    and "js_div (js_add (transactions_count near) (contract_calls near)) (Fin 2) = Fin 0"
  shows "calculateActivityCorrelation github near = Fin 1
     \<and> (''LOW_ACTIVITY_CORRELATION'' \<in> code ` set (warnings (validate this github near now now')))
         = (1 < minActivityCorrelation this)
     \<and> (minActivityCorrelation this \<le> 1 \<longrightarrow>
          ''LOW_ACTIVITY_CORRELATION''
            \<notin> code ` set (warnings (validate this github near now now')))"
proof -
  have corr: "calculateActivityCorrelation github near = Fin 1"
    by (simp add: calculateActivityCorrelation_def assms)
  then show ?thesis
    by (simp add: code_mem_filter low_correlation_warnings)
qed

theorem idle_records_correlation_witness:
  "js_div
     (js_add
        (js_add (commits_count (github_record 0 (Fin 0) (Fin 0) (Fin 0) [] [] []))
           (pullRequests_merged (github_record 0 (Fin 0) (Fin 0) (Fin 0) [] [] [])))
        (issues_closed (github_record 0 (Fin 0) (Fin 0) (Fin 0) [] [] [])))
     (Fin 3) = Fin 0
   \<and> js_div
        (js_add (transactions_count (near_record 0 (Fin 0) (Fin 0) [] []))
           (contract_calls (near_record 0 (Fin 0) (Fin 0) [] [])))
        (Fin 2) = Fin 0
   \<and> minActivityCorrelation DEFAULT_THRESHOLDS \<le> 1
   \<and> calculateActivityCorrelation (github_record 0 (Fin 0) (Fin 0) (Fin 0) [] [] [])
        (near_record 0 (Fin 0) (Fin 0) [] []) = Fin 1
   \<and> ''LOW_ACTIVITY_CORRELATION'' \<notin> code ` set (warnings (validate DEFAULT_THRESHOLDS
        (github_record 0 (Fin 0) (Fin 0) (Fin 0) [] [] [])
        (near_record 0 (Fin 0) (Fin 0) [] []) 0 0))"
proof -
  let ?g = "github_record 0 (Fin 0) (Fin 0) (Fin 0) [] [] []"
  let ?n = "near_record 0 (Fin 0) (Fin 0) [] []"
  have g: "js_div
      (js_add (js_add (commits_count ?g) (pullRequests_merged ?g)) (issues_closed ?g))
      (Fin 3) = Fin 0"
    by (simp add: github_record_def round_double_zero)
  have n: "js_div (js_add (transactions_count ?n) (contract_calls ?n)) (Fin 2) = Fin 0"
    by (simp add: near_record_def round_double_zero)
  have le: "minActivityCorrelation DEFAULT_THRESHOLDS \<le> 1"
    by (simp add: DEFAULT_THRESHOLDS_def)
  note inst = idle_records_correlation [OF g n, of DEFAULT_THRESHOLDS 0 0]
  have corr: "calculateActivityCorrelation ?g ?n = Fin 1"
    using inst by blast
  have none: "''LOW_ACTIVITY_CORRELATION''
      \<notin> code ` set (warnings (validate DEFAULT_THRESHOLDS ?g ?n 0 0))"
    using inst le by blast
  show ?thesis
    using g n le corr none by (intro conjI)
qed

text \<open>
  C7. The code at a falsy counter: with \<open>commits.count\<close> missing (or \<open>NaN\<close>) the sum
  of the GitHub counters is \<open>NaN\<close>, so is the correlation, the comparison with the
  threshold is false and no warning is pushed. Counted as zero, the same records have
  the correlation 0 and get the warning.
\<close>

theorem missing_counter_is_not_zero:
  "calculateActivityCorrelation (github_record 1000 NaN (Fin 0) (Fin 0) [] [] [])
     (near_record 1000 (Fin 10) (Fin 10) [] []) = NaN
   \<and> warnings (validate DEFAULT_THRESHOLDS
        (github_record 1000 NaN (Fin 0) (Fin 0) [] [] [])
        (near_record 1000 (Fin 10) (Fin 10) [] []) 1000 1000) = []
   \<and> calculateActivityCorrelation (github_record 1000 (Fin 0) (Fin 0) (Fin 0) [] [] [])
        (near_record 1000 (Fin 10) (Fin 10) [] []) = Fin 0
   \<and> warnings (validate DEFAULT_THRESHOLDS
        (github_record 1000 (Fin 0) (Fin 0) (Fin 0) [] [] [])
        (near_record 1000 (Fin 10) (Fin 10) [] []) 1000 1000)
      = [\<lparr>code = ''LOW_ACTIVITY_CORRELATION'',
           message = ''Low correlation between GitHub and NEAR activity'',
           err_context =
             [(''correlation'', Fin 0),
              (''threshold'', Fin (5404319552844595 / 2 ^ 54))]\<rparr>]"
proof -
  have twenty: "round_double 20 = Fin 20"
    by (simp add: round_double_normal [of 4] round_half_even_def)
  have ten: "round_double 10 = Fin 10"
    by (simp add: round_double_normal [of 3] round_half_even_def)
  show ?thesis
    by (simp add: warnings_validate [OF refl refl] calculateActivityCorrelation_def
        DEFAULT_THRESHOLDS_def github_record_def near_record_def createValidationError_def
        round_double_zero twenty ten)
qed

text \<open>
  C8. On a heap where the two arguments refer to records, the method returns a result
  and leaves every object that was there as it was, the two records among them: it
  writes to the two arrays it allocates and to nothing else. The result is the value of
  \<open>validate\<close> at the thresholds, the two records and the reading \<open>now\<close> of the clock;
  a second call with the same arguments and the same \<open>now\<close>, on the heap that the first
  call has left, returns the same errors and the same warnings, whatever the later
  reading that stamps each result.
\<close>

theorem validate_leaves_records:
  assumes "read_github h g = Some github" "read_near h n = Some near"
  shows "\<exists>r1 h' r2 h''.
       validate_heap this g n now t1 h = Some (r1, h')
     \<and> take (length h) h' = h
     \<and> read_github h' g = Some github \<and> read_near h' n = Some near
     \<and> validate_heap this g n now t2 h' = Some (r2, h'')
     \<and> take (length h') h'' = h'
     \<and> errors r2 = errors r1 \<and> warnings r2 = warnings r1
     \<and> r1 = validate this github near now t1 \<and> r2 = validate this github near now t2
     \<and> r2 = r1\<lparr>timestamp := t2\<rparr>"
proof -
  let ?h' = "h @ [ArrayObject (errors (validate this github near now t1)),
                  ArrayObject (warnings (validate this github near now t1))]"
  let ?h'' = "?h' @ [ArrayObject (errors (validate this github near now t2)),
                     ArrayObject (warnings (validate this github near now t2))]"
  have first: "validate_heap this g n now t1 h = Some (validate this github near now t1, ?h')"
    using assms by (rule validate_heap_result)
  have g': "read_github ?h' g = Some github"
    using assms(1) by (simp add: read_github_Some nth_append)
  have n': "read_near ?h' n = Some near"
    using assms(2) by (simp add: read_near_Some nth_append)
  have second: "validate_heap this g n now t2 ?h'
      = Some (validate this github near now t2, ?h'')"
    using g' n' by (rule validate_heap_result)
  have same: "errors (validate this github near now t2)
        = errors (validate this github near now t1)"
      "warnings (validate this github near now t2)
        = warnings (validate this github near now t1)"
      "validate this github near now t2
        = (validate this github near now t1)\<lparr>timestamp := t2\<rparr>"
    by (simp_all add: validate_def Let_def)
  have kept: "take (length h) ?h' = h" "take (length ?h') ?h'' = ?h'"
    by simp_all
  show ?thesis
    using first g' n' second same kept
    by (intro exI [of _ "validate this github near now t1"] exI [of _ ?h']
        exI [of _ "validate this github near now t2"] exI [of _ ?h'']) (intro conjI refl)
qed

text \<open>
  The instance: a heap of two stale records without activity, the defaults, the clock
  at 100000000. Both calls return the two freshness errors and no warning; the heap
  keeps the two records and gains the arrays of each call.
\<close>

theorem validate_leaves_records_witness:
  "read_github
     [GitHubObject (github_record 0 (Fin 0) (Fin 0) (Fin 0) [] [] []),
      NEARObject (near_record 1000 (Fin 0) (Fin 0) [] [])] 0
     = Some (github_record 0 (Fin 0) (Fin 0) (Fin 0) [] [] [])
   \<and> read_near
        [GitHubObject (github_record 0 (Fin 0) (Fin 0) (Fin 0) [] [] []),
         NEARObject (near_record 1000 (Fin 0) (Fin 0) [] [])] 1
     = Some (near_record 1000 (Fin 0) (Fin 0) [] [])
   \<and> validate_heap DEFAULT_THRESHOLDS 0 1 100000000 100000001
        [GitHubObject (github_record 0 (Fin 0) (Fin 0) (Fin 0) [] [] []),
         NEARObject (near_record 1000 (Fin 0) (Fin 0) [] [])]
     = Some
         (\<lparr>isValid = False,
           errors =
             [\<lparr>code = ''STALE_DATA'', message = ''GitHub data is too old'',
                err_context = [(''timestamp'', Fin 0), (''maxAge'', Fin 86400000)]\<rparr>,
              \<lparr>code = ''STALE_DATA'', message = ''NEAR data is too old'',
                err_context = [(''timestamp'', Fin 1000), (''maxAge'', Fin 86400000)]\<rparr>],
           warnings = [],
           timestamp = 100000001,
           metadata = [(''source'', ''github''), (''validationType'', ''data'')]\<rparr>,
          [GitHubObject (github_record 0 (Fin 0) (Fin 0) (Fin 0) [] [] []),
           NEARObject (near_record 1000 (Fin 0) (Fin 0) [] []),
           ArrayObject
             [\<lparr>code = ''STALE_DATA'', message = ''GitHub data is too old'',
                err_context = [(''timestamp'', Fin 0), (''maxAge'', Fin 86400000)]\<rparr>,
              \<lparr>code = ''STALE_DATA'', message = ''NEAR data is too old'',
                err_context = [(''timestamp'', Fin 1000), (''maxAge'', Fin 86400000)]\<rparr>],
           ArrayObject []])
   \<and> map_option (\<lambda>(r, h). (errors r, warnings r, timestamp r, take 2 h))
        (validate_heap DEFAULT_THRESHOLDS 0 1 100000000 100000002
           [GitHubObject (github_record 0 (Fin 0) (Fin 0) (Fin 0) [] [] []),
            NEARObject (near_record 1000 (Fin 0) (Fin 0) [] []),
            ArrayObject
              [\<lparr>code = ''STALE_DATA'', message = ''GitHub data is too old'',
                 err_context = [(''timestamp'', Fin 0), (''maxAge'', Fin 86400000)]\<rparr>,
               \<lparr>code = ''STALE_DATA'', message = ''NEAR data is too old'',
                 err_context = [(''timestamp'', Fin 1000), (''maxAge'', Fin 86400000)]\<rparr>],
            ArrayObject []])
     = Some
         ([\<lparr>code = ''STALE_DATA'', message = ''GitHub data is too old'',
             err_context = [(''timestamp'', Fin 0), (''maxAge'', Fin 86400000)]\<rparr>,
           \<lparr>code = ''STALE_DATA'', message = ''NEAR data is too old'',
             err_context = [(''timestamp'', Fin 1000), (''maxAge'', Fin 86400000)]\<rparr>],
          [], 100000002,
          [GitHubObject (github_record 0 (Fin 0) (Fin 0) (Fin 0) [] [] []),
           NEARObject (near_record 1000 (Fin 0) (Fin 0) [] [])])"
proof -
  let ?g = "github_record 0 (Fin 0) (Fin 0) (Fin 0) [] [] []"
  let ?n = "near_record 1000 (Fin 0) (Fin 0) [] []"
  let ?h = "[GitHubObject ?g, NEARObject ?n]"
  let ?es = "[\<lparr>code = ''STALE_DATA'', message = ''GitHub data is too old'',
                err_context = [(''timestamp'', Fin 0), (''maxAge'', Fin 86400000)]\<rparr>,
              \<lparr>code = ''STALE_DATA'', message = ''NEAR data is too old'',
                err_context = [(''timestamp'', Fin 1000), (''maxAge'', Fin 86400000)]\<rparr>]"
  have g: "read_github ?h 0 = Some ?g"
    by (simp add: read_github_def)
  have n: "read_near ?h 1 = Some ?n"
    by (simp add: read_near_def)
  have es: "errors (validate DEFAULT_THRESHOLDS ?g ?n 100000000 t) = ?es" for t
    by (simp add: errors_validate DEFAULT_THRESHOLDS_def github_record_def near_record_def
        createValidationError_def)
  have ws: "warnings (validate DEFAULT_THRESHOLDS ?g ?n 100000000 t) = []" for t
    by (simp add: warnings_validate [OF refl refl] calculateActivityCorrelation_def
        DEFAULT_THRESHOLDS_def github_record_def near_record_def round_double_zero)
  have v: "validate DEFAULT_THRESHOLDS ?g ?n 100000000 t =
      \<lparr>isValid = False, errors = ?es, warnings = [], timestamp = t,
       metadata = [(''source'', ''github''), (''validationType'', ''data'')]\<rparr>" for t
  proof -
    have "isValid (validate DEFAULT_THRESHOLDS ?g ?n 100000000 t) = False"
      "timestamp (validate DEFAULT_THRESHOLDS ?g ?n 100000000 t) = t"
      "metadata (validate DEFAULT_THRESHOLDS ?g ?n 100000000 t)
         = [(''source'', ''github''), (''validationType'', ''data'')]"
      using es [of t] by (simp_all add: validate_def Let_def)
    then show ?thesis
      using es [of t] ws [of t] by (intro ValidationResult.equality) simp_all
  qed
  obtain r1 h' r2 h'' where inst:
    "validate_heap DEFAULT_THRESHOLDS 0 1 100000000 100000001 ?h = Some (r1, h')"
    "validate_heap DEFAULT_THRESHOLDS 0 1 100000000 100000002 h' = Some (r2, h'')"
    "take (length h') h'' = h'" "take (length ?h) h' = ?h"
    "errors r2 = errors r1" "warnings r2 = warnings r1"
    "r1 = validate DEFAULT_THRESHOLDS ?g ?n 100000000 100000001"
    "r2 = validate DEFAULT_THRESHOLDS ?g ?n 100000000 100000002"
    using validate_leaves_records [OF g n, of DEFAULT_THRESHOLDS 100000000 100000001 100000002]
    by blast
  have h': "h' = ?h @ [ArrayObject ?es, ArrayObject []]"
    using inst(1) validate_heap_result [OF g n, of DEFAULT_THRESHOLDS 100000000 100000001]
    by (simp add: es ws)
  have first: "validate_heap DEFAULT_THRESHOLDS 0 1 100000000 100000001 ?h
      = Some (\<lparr>isValid = False, errors = ?es, warnings = [], timestamp = 100000001,
               metadata = [(''source'', ''github''), (''validationType'', ''data'')]\<rparr>,
              [GitHubObject ?g, NEARObject ?n, ArrayObject ?es, ArrayObject []])"
    using inst(1) by (simp add: inst(7) v h')
  have "take 2 h'' = ?h"
  proof -
    obtain rest where "h'' = h' @ rest"
      using inst(3) by (metis append_take_drop_id)
    then show ?thesis by (simp add: h')
  qed
  then have second: "map_option (\<lambda>(r, h). (errors r, warnings r, timestamp r, take 2 h))
        (validate_heap DEFAULT_THRESHOLDS 0 1 100000000 100000002
           [GitHubObject ?g, NEARObject ?n, ArrayObject ?es, ArrayObject []])
      = Some (?es, [], 100000002, ?h)"
    using inst(2) by (simp add: h' inst(8) v)
  show ?thesis
    using g n first second by (intro conjI)
qed

text \<open>
  C9, as stated, fails: the metadata has two tags, \<open>source\<close> with the value
  \<open>github\<close> and \<open>validationType\<close> with the value \<open>data\<close>. One source kind
  is named; no tag names the NEAR side of the comparison.
\<close>

theorem metadata_one_source_counterexample:
  "metadata (validate DEFAULT_THRESHOLDS
      (github_record 0 (Fin 0) (Fin 0) (Fin 0) [] [] [])
      (near_record 0 (Fin 0) (Fin 0) [] []) 0 0)
     = [(''source'', ''github''), (''validationType'', ''data'')]
   \<and> map_of (metadata (validate DEFAULT_THRESHOLDS
        (github_record 0 (Fin 0) (Fin 0) (Fin 0) [] [] [])
        (near_record 0 (Fin 0) (Fin 0) [] []) 0 0)) ''source'' \<noteq> Some ''near''
   \<and> ''near'' \<notin> snd ` set (metadata (validate DEFAULT_THRESHOLDS
        (github_record 0 (Fin 0) (Fin 0) (Fin 0) [] [] [])
        (near_record 0 (Fin 0) (Fin 0) [] []) 0 0))"
  by (simp add: validate_def Let_def)

text \<open>
  C9, amended. Every result of \<open>validate\<close> carries the same metadata, whatever the
  thresholds, the records and the clock: the tag \<open>source\<close> with the value \<open>github\<close>
  and the tag \<open>validationType\<close> with the value \<open>data\<close>.
\<close>

theorem metadata_fixed:
  "metadata (validate this github near now now')
     = [(''source'', ''github''), (''validationType'', ''data'')]"
  by (simp add: validate_def Let_def)

text \<open>
  C10. The errors list has at most three elements, at most one \<open>TIMESTAMP_DRIFT\<close> and
  at most two \<open>STALE_DATA\<close>; the warnings list has at most two, at most one
  \<open>LOW_ACTIVITY_CORRELATION\<close> and at most one \<open>USER_COUNT_DISCREPANCY\<close>; no other
  code appears in either list.
\<close>

theorem findings_bounded:
  "length (errors (validate this github near now now')) \<le> 3
   \<and> length (warnings (validate this github near now now')) \<le> 2
   \<and> length (filter (\<lambda>e. code e = ''TIMESTAMP_DRIFT'')
        (errors (validate this github near now now'))) \<le> 1
   \<and> length (filter (\<lambda>e. code e = ''STALE_DATA'')
        (errors (validate this github near now now'))) \<le> 2
   \<and> length (filter (\<lambda>w. code w = ''LOW_ACTIVITY_CORRELATION'')
        (warnings (validate this github near now now'))) \<le> 1
   \<and> length (filter (\<lambda>w. code w = ''USER_COUNT_DISCREPANCY'')
        (warnings (validate this github near now now'))) \<le> 1
   \<and> set (map code (errors (validate this github near now now')))
       \<subseteq> {''TIMESTAMP_DRIFT'', ''STALE_DATA''}
   \<and> set (map code (warnings (validate this github near now now')))
       \<subseteq> {''LOW_ACTIVITY_CORRELATION'', ''USER_COUNT_DISCREPANCY''}"
  by (simp add: errors_validate warnings_validate [OF refl refl] createValidationError_def
      ErrorCode_USER_COUNT_DISCREPANCY_def)

end
